theory Spec2Isabelle
  imports Complex_Main
begin

text \<open>
  The calorie tracker is an Express server: each route handler reads the request, the
  process environment and the OAuth client's credentials, talks to the completion API
  and to the spreadsheet, and answers with a status and a JSON body. The handlers are
  modelled as functions that return the response, the list of remote calls made, in
  order, and the spreadsheet after the request.
\<close>

section \<open>JavaScript values as the handlers see them\<close>

text \<open>
  Request bodies, token payloads, model replies and response bodies are JSON-shaped
  JavaScript values. An object is an association list in property order; a property
  that is not there reads as \<open>undefined\<close>. Numbers are rationals (every value the
  handlers compute is an integer, and the estimates they only pass on keep their value).
\<close>

datatype jval =
    JUndef
  | JNull
  | JBool bool
  | JNum rat
  | JStr string
  | JArr "jval list"
  | JObj "(string \<times> jval) list"

type_synonym obj = "(string \<times> jval) list"

text \<open>Truthiness, as \<open>if (x)\<close>, \<open>!x\<close>, \<open>x || y\<close> and \<open>x && y\<close> decide it.\<close>

fun truthy :: "jval \<Rightarrow> bool" where
  "truthy JUndef = False"
| "truthy JNull = False"
| "truthy (JBool b) = b"
| "truthy (JNum n) = (n \<noteq> 0)"
| "truthy (JStr s) = (s \<noteq> [])"
| "truthy (JArr xs) = True"
| "truthy (JObj fs) = True"

definition js_or :: "jval \<Rightarrow> jval \<Rightarrow> jval" where
  "js_or a b = (if truthy a then a else b)"

text \<open>Property read \<open>o.k\<close> on an object literal or a parsed object.\<close>

definition obj_get :: "obj \<Rightarrow> string \<Rightarrow> jval" where
  "obj_get fs k = (case map_of fs k of None \<Rightarrow> JUndef | Some v \<Rightarrow> v)"

text \<open>Property write: an existing key keeps its place, a new key goes last.\<close>

fun obj_set :: "obj \<Rightarrow> string \<Rightarrow> jval \<Rightarrow> obj" where
  "obj_set [] k v = [(k, v)]"
| "obj_set ((k', v') # fs) k v =
     (if k' = k then (k, v) # fs else (k', v') # obj_set fs k v)"

text \<open>
  A string is UTF-8 text, a \<open>char\<close> being one byte. \<open>decimal\<close> is the text of an
  index as a property key, and \<open>code_units\<close> cuts a string into the code units
  that JavaScript indexes it by: one for a character of one, two or three bytes, and the
  two surrogates, each written on three bytes, for a character of four.
\<close>

definition charCode :: "char \<Rightarrow> nat" where
  "charCode c = of_char c"

function decimal :: "nat \<Rightarrow> string" where
  "decimal n =
     (if n < 10 then [char_of (48 + n)] else decimal (n div 10) @ [char_of (48 + n mod 10)])"
  by pat_completeness auto
termination
  by (relation "measure id") auto

declare decimal.simps [simp del]

definition utf8_width :: "char \<Rightarrow> nat" where
  "utf8_width c =
     (let n = charCode c
      in if 240 \<le> n \<and> n \<le> 247 then 4
         else if 224 \<le> n \<and> n \<le> 239 then 3
         else if 192 \<le> n \<and> n \<le> 223 then 2
         else 1)"

definition unit3 :: "nat \<Rightarrow> string" where
  "unit3 u = [char_of (224 + u div 4096), char_of (128 + (u div 64) mod 64), char_of (128 + u mod 64)]"

definition surrogates :: "string \<Rightarrow> string list" where
  "surrogates s =
     (let b = map charCode s;
          cp = (b ! 0 mod 8) * 262144 + (b ! 1 mod 64) * 4096 + (b ! 2 mod 64) * 64 + b ! 3 mod 64;
          v = cp - 65536
      in [unit3 (55296 + v div 1024), unit3 (56320 + v mod 1024)])"

definition units_of :: "string \<Rightarrow> string list" where
  "units_of s = (if length s = 4 then surrogates s else [s])"

fun code_units :: "string \<Rightarrow> string list" where
  "code_units [] = []"
| "code_units (c # cs) =
     units_of (c # take (utf8_width c - 1) cs) @ code_units (drop (utf8_width c - 1) cs)"

fun index_props :: "nat \<Rightarrow> jval list \<Rightarrow> obj" where
  "index_props n [] = []"
| "index_props n (x # xs) = (decimal n, x) # index_props (Suc n) xs"

text \<open>
  The own enumerable properties that \<open>{...x}\<close> copies: those of an object, the
  elements of an array under their indices, the characters of a string under theirs;
  nothing for \<open>null\<close>, \<open>undefined\<close>, numbers and booleans.
\<close>

fun own_props :: "jval \<Rightarrow> obj" where
  "own_props (JObj fs) = fs"
| "own_props (JArr xs) = index_props 0 xs"
| "own_props (JStr s) = index_props 0 (map JStr (code_units s))"
| "own_props _ = []"

definition spread :: "obj \<Rightarrow> obj \<Rightarrow> obj" where
  "spread base over = fold (\<lambda>(k, v) acc. obj_set acc k v) over base"

text \<open>
  \<open>JSON.stringify\<close> followed by \<open>JSON.parse\<close>: what a client reads from \<open>res.json(x)\<close>
  and what a later \<open>readFileSync\<close> reads back. A property whose value is \<open>undefined\<close>
  is dropped, and an \<open>undefined\<close> array element becomes \<open>null\<close>.
\<close>

fun json_elem :: "jval \<Rightarrow> jval"
and json_fields :: "obj \<Rightarrow> obj"
and json_elems :: "jval list \<Rightarrow> jval list" where
  "json_elem (JArr xs) = JArr (json_elems xs)"
| "json_elem (JObj fs) = JObj (json_fields fs)"
| "json_elem JUndef = JNull"
| "json_elem v = v"
| "json_fields [] = []"
| "json_fields ((k, v) # fs) =
     (if v = JUndef then json_fields fs else (k, json_elem v) # json_fields fs)"
| "json_elems [] = []"
| "json_elems (x # xs) = json_elem x # json_elems xs"

text \<open>A value that came out of \<open>JSON.parse\<close>: no \<open>undefined\<close> anywhere in it.\<close>

fun is_json :: "jval \<Rightarrow> bool"
and are_json_fields :: "obj \<Rightarrow> bool"
and are_json :: "jval list \<Rightarrow> bool" where
  "is_json JUndef = False"
| "is_json (JArr xs) = are_json xs"
| "is_json (JObj fs) = are_json_fields fs"
| "is_json v = True"
| "are_json_fields [] = True"
| "are_json_fields ((k, v) # fs) = (is_json v \<and> are_json_fields fs)"
| "are_json [] = True"
| "are_json (x # xs) = (is_json x \<and> are_json xs)"

section \<open>Credential store\<close>

text \<open>
  \<open>tokens.json\<close> holds one record. \<open>None\<close> stands for every state of the file in which
  \<open>JSON.parse(fs.readFileSync(TOKEN_PATH))\<close> throws (no file, or no JSON in it).
\<close>

type_synonym token_file = "jval option"

definition saveTokens :: "obj \<Rightarrow> token_file" where
  "saveTokens tokens = Some (JObj (json_fields tokens))"

text \<open>
  The \<open>'tokens'\<close> listener. It runs outside every request; an exception in the
  \<open>else\<close> branch leaves the file as it was (\<open>Inl\<close>).
\<close>

type_synonym message = string

definition on_tokens :: "obj \<Rightarrow> token_file \<Rightarrow> message + token_file" where
  "on_tokens tokens file =
     (if truthy (obj_get tokens ''refresh_token'') then Inr (saveTokens tokens)
      else (case file of
              None \<Rightarrow> Inl ''tokens.json cannot be read''
            | Some existingTokens \<Rightarrow> Inr (saveTokens (spread (own_props existingTokens) tokens))))"

text \<open>The file after the event, whether or not the listener threw.\<close>

definition file_after :: "obj \<Rightarrow> token_file \<Rightarrow> token_file" where
  "file_after tokens file = (case on_tokens tokens file of Inl e \<Rightarrow> file | Inr f \<Rightarrow> f)"

text \<open>The \<open>refresh_token\<close> a reader of the file finds (\<open>None\<close>: nothing readable).\<close>

definition stored_refresh_token :: "token_file \<Rightarrow> jval option" where
  "stored_refresh_token file =
     (case file of None \<Rightarrow> None | Some v \<Rightarrow> Some (obj_get (own_props v) ''refresh_token''))"

section \<open>Host functions\<close>

subsection \<open>Strings and numbers\<close>

text \<open>
  \<open>String.prototype.toLowerCase\<close> on the ASCII letters. (No other character lowers to
  one of \<open>d\<close>, \<open>a\<close>, \<open>t\<close>, \<open>e\<close>, the only comparison the handlers make.)
\<close>

definition lower_char :: "char \<Rightarrow> char" where
  "lower_char c =
     (if 65 \<le> charCode c \<and> charCode c \<le> 90 then char_of (charCode c + 32) else c)"

definition toLowerCase :: "string \<Rightarrow> string" where
  "toLowerCase s = map lower_char s"

text \<open>
  The white space and line terminators that \<open>parseInt\<close> skips, in UTF-8: the width in
  bytes of such a character at the head of a string, 0 when there is none. They are
  TAB, LF, VT, FF, CR, SP, U+00A0, U+1680, U+2000 to U+200A, U+2028, U+2029, U+202F,
  U+205F, U+3000 and U+FEFF.
\<close>

definition space_width :: "string \<Rightarrow> nat" where
  "space_width s =
     (case map charCode (take 3 s) of
        [] \<Rightarrow> 0
      | a # rest \<Rightarrow>
          if a \<in> {9, 10, 11, 12, 13, 32} then 1
          else if a = 194 \<and> take 1 rest = [160] then 2
          else if a = 225 \<and> rest = [154, 128] then 3
          else if a = 226 \<and> take 1 rest = [128] \<and> length rest = 2
                  \<and> (128 \<le> rest ! 1 \<and> rest ! 1 \<le> 138 \<or> rest ! 1 \<in> {168, 169, 175}) then 3
          else if a = 226 \<and> rest = [129, 159] then 3
          else if a = 227 \<and> rest = [128, 128] then 3
          else if a = 239 \<and> rest = [187, 191] then 3
          else 0)"

fun trim_start :: "string \<Rightarrow> string" where
  "trim_start [] = []"
| "trim_start (c # cs) =
     (if space_width (c # cs) = 0 then c # cs
      else trim_start (drop (space_width (c # cs) - 1) cs))"

text \<open>
  \<open>parseInt(s)\<close> with no radix: leading white space is skipped, one sign is read, a
  \<open>0x\<close> or \<open>0X\<close> prefix switches to radix 16, and the longest run of digits is the
  value; no digit at all gives \<open>NaN\<close>, here \<open>None\<close>. The value is the integer the
  digits denote. The code holds it as a double, which is that integer up to \<open>2^53\<close>;
  the properties about sums and averages of cells are stated within that range.
\<close>

definition digit_of :: "nat \<Rightarrow> char \<Rightarrow> nat option" where
  "digit_of radix c =
     (let n = charCode c;
          d = (if 48 \<le> n \<and> n \<le> 57 then Some (n - 48)
               else if 97 \<le> n \<and> n \<le> 122 then Some (n - 87)
               else if 65 \<le> n \<and> n \<le> 90 then Some (n - 55)
               else None)
      in case d of None \<Rightarrow> None | Some v \<Rightarrow> if v < radix then Some v else None)"

fun digits_value :: "nat \<Rightarrow> nat \<Rightarrow> string \<Rightarrow> nat" where
  "digits_value radix acc [] = acc"
| "digits_value radix acc (c # cs) =
     (case digit_of radix c of
        None \<Rightarrow> acc
      | Some d \<Rightarrow> digits_value radix (acc * radix + d) cs)"

definition radix_value :: "nat \<Rightarrow> string \<Rightarrow> nat option" where
  "radix_value radix s =
     (case s of
        [] \<Rightarrow> None
      | c # cs \<Rightarrow> (case digit_of radix c of None \<Rightarrow> None | Some d \<Rightarrow> Some (digits_value radix 0 s)))"

definition parseInt_string :: "string \<Rightarrow> int option" where
  "parseInt_string inputString =
     (let S = trim_start inputString;
          neg = (case S of c # cs \<Rightarrow> c = CHR ''-'' | [] \<Rightarrow> False);
          S1 = (case S of c # cs \<Rightarrow> if c = CHR ''+'' \<or> c = CHR ''-'' then cs else S | [] \<Rightarrow> S);
          hex = (take 2 S1 = ''0x'' \<or> take 2 S1 = ''0X'');
          Z = (if hex then radix_value 16 (drop 2 S1) else radix_value 10 S1)
      in case Z of
           None \<Rightarrow> None
         | Some n \<Rightarrow> Some (if neg then - int n else int n))"

text \<open>
  \<open>parseInt(x)\<close> for the values the handlers pass: a cell or a route parameter (a
  string), or \<open>undefined\<close> for a cell that is not there, which reads as the text
  \<open>undefined\<close> and gives \<open>NaN\<close>.
\<close>

definition parseInt :: "string option \<Rightarrow> int option" where
  "parseInt x = (case x of None \<Rightarrow> None | Some s \<Rightarrow> parseInt_string s)"

text \<open>\<open>n || d\<close> for a number \<open>n\<close>: \<open>NaN\<close> and \<open>0\<close> are falsy.\<close>

definition num_or :: "int option \<Rightarrow> int \<Rightarrow> int" where
  "num_or n d = (case n of None \<Rightarrow> d | Some v \<Rightarrow> if v = 0 then d else v)"

text \<open>
  \<open>Math.round\<close>: the nearest integer, a tie going up. It is applied to an exact
  quotient here; the code applies it to the double quotient, which rounds to the same
  integer while the dividend is below \<open>2^52\<close> in size.
\<close>

definition Math_round :: "rat \<Rightarrow> int" where
  "Math_round x = \<lfloor>x + 1 / 2\<rfloor>"

subsection \<open>Dates\<close>

text \<open>
  A valid \<open>Date\<close> as the handlers read it: its time value in milliseconds and the
  local calendar fields that \<open>getFullYear\<close>, \<open>getMonth\<close> (from 0) and \<open>getDate\<close> return.
\<close>

record jsdate =
  time_value :: int
  full_year :: int
  month0 :: int
  day_of_month :: int

text \<open>
  The completion request of \<open>/analyze\<close>. The two prompts are fixed texts around the
  values kept here: the media type and the base64 data of the image with the optional
  extra context, or the food description.
\<close>

datatype prompt =
    ImagePrompt string string "jval option"
  | TextPrompt jval

text \<open>
  What the host supplies to a request: the completion API with the reply text already
  through \<open>JSON.parse\<close> (\<open>Inl\<close>: the call or the parse threw), the clock rendered in
  the caller's zone and in the server's own, \<open>nowInTz\<close> (the clock's text in the
  caller's zone read back as a \<open>Date\<close>), the generic date parser (\<open>None\<close> is an
  Invalid Date), and the map from local time to a time value. A \<open>RangeError\<close> for a
  zone the host does not know is \<open>Inl\<close>.
\<close>

record host =
  complete :: "prompt \<Rightarrow> message + jval"
  toLocaleDateString :: "jval \<Rightarrow> message + string"
  toLocaleTimeString :: "jval \<Rightarrow> message + string"
  defaultDateString :: string
  defaultTimeString :: string
  nowInTz :: "jval \<Rightarrow> message + jsdate option"
  Date_parse :: "string \<Rightarrow> int option"
  UTC_of_local :: "int \<Rightarrow> int"

text \<open>
  \<open>new Date(year, month, date)\<close>: ECMAScript's \<open>MakeDay\<close> and \<open>MakeDate\<close> at time 0,
  read as local time. A month outside 0..11 carries into the year and a day outside the
  month carries into the neighbouring months. \<open>month_start\<close> is the number of days
  before a month in its year; \<open>MakeDay\<close> calls it with a month from 0 to 11.
\<close>

definition msPerDay :: int where
  "msPerDay = 86400000"

definition DayFromYear :: "int \<Rightarrow> int" where
  "DayFromYear y =
     365 * (y - 1970) + (y - 1969) div 4 - (y - 1901) div 100 + (y - 1601) div 400"

definition InLeapYear :: "int \<Rightarrow> bool" where
  "InLeapYear y = ((y mod 4 = 0 \<and> y mod 100 \<noteq> 0) \<or> y mod 400 = 0)"

definition month_start :: "int \<Rightarrow> int \<Rightarrow> int" where
  "month_start y mn =
     [0, 31, 59, 90, 120, 151, 181, 212, 243, 273, 304, 334] ! nat mn
       + (if InLeapYear y \<and> 2 \<le> mn then 1 else 0)"

definition MakeDay :: "int \<Rightarrow> int \<Rightarrow> int \<Rightarrow> int" where
  "MakeDay year month date =
     (let ym = year + month div 12;
          mn = month mod 12
      in DayFromYear ym + month_start ym mn + date - 1)"

definition new_Date :: "'a host_scheme \<Rightarrow> int \<Rightarrow> int \<Rightarrow> int \<Rightarrow> int" where
  "new_Date h year month date =
     (let yr = (if 0 \<le> year \<and> year \<le> 99 then 1900 + year else year)
      in UTC_of_local h (MakeDay yr month date * msPerDay))"

section \<open>The spreadsheet\<close>

text \<open>
  The spreadsheet provider is outside the repository. It is taken as a store of two
  sheets of text cells: \<open>Sheet1\<close>, the ledger, which is also the sheet with id 0, and
  \<open>Settings\<close>, which may not exist. A range read returns the stored rows as they are,
  a row being as long as its last written cell; a read that selects no row returns
  no \<open>values\<close>. A call that fails changes nothing.
\<close>

type_synonym grid = "string list list"

record remote =
  Sheet1 :: grid
  Settings :: "grid option"

text \<open>
  Ranges in A1 notation: \<open>Cols t 0 6\<close> is \<open>t!A:G\<close>, and \<open>Cells t 3 r 6 r\<close> is
  \<open>t!Dr:Gr\<close>, where a row number that is \<open>NaN\<close> is \<open>None\<close>.
\<close>

datatype a1 =
    Cols string nat nat
  | Cells string nat "int option" nat "int option"

datatype call =
    ValuesAppend a1 "jval list list"
  | ValuesGet a1
  | ValuesUpdate a1 "jval list list"
  | DeleteDimension int "int option" "int option"
  | SpreadsheetGet
  | AddSheet string

datatype reply =
    ValueRange "grid option"
  | SheetTitles "string list"
  | Empty

datatype event =
    Completion prompt
  | Sheets call

definition grid_of :: "remote \<Rightarrow> string \<Rightarrow> grid option" where
  "grid_of r t =
     (if t = ''Sheet1'' then Some (Sheet1 r) else if t = ''Settings'' then Settings r else None)"

definition put_grid :: "remote \<Rightarrow> string \<Rightarrow> grid \<Rightarrow> remote" where
  "put_grid r t g = (if t = ''Sheet1'' then r\<lparr>Sheet1 := g\<rparr> else r\<lparr>Settings := Some g\<rparr>)"

definition select_cols :: "nat \<Rightarrow> nat \<Rightarrow> grid \<Rightarrow> grid" where
  "select_cols c1 c2 g = map (\<lambda>row. take (Suc c2 - c1) (drop c1 row)) g"

definition values_of :: "grid \<Rightarrow> reply" where
  "values_of g = ValueRange (if g = [] then None else Some g)"

text \<open>The text of the cell at row \<open>i\<close> and column \<open>j\<close>, both from 0; empty where nothing is stored.\<close>

definition cell_text :: "grid \<Rightarrow> nat \<Rightarrow> nat \<Rightarrow> string" where
  "cell_text g i j = (if i < length g \<and> j < length (g ! i) then g ! i ! j else [])"

definition set_cell :: "grid \<Rightarrow> nat \<Rightarrow> nat \<Rightarrow> string \<Rightarrow> grid" where
  "set_cell g i j s =
     (let g1 = g @ replicate (Suc i - length g) [];
          row = g1 ! i;
          row1 = row @ replicate (Suc j - length row) []
      in g1[i := row1[j := s]])"

text \<open>
  A written value is sent as JSON; \<open>null\<close> (also what \<open>undefined\<close> is sent as) leaves
  the cell alone, every other value is entered as the user would type it and the cell
  then shows the text \<open>display\<close> gives.
\<close>

definition write_cell :: "(jval \<Rightarrow> string) \<Rightarrow> nat \<Rightarrow> grid \<Rightarrow> nat \<times> jval \<Rightarrow> grid" where
  "write_cell display i g jv =
     (case json_elem (snd jv) of JNull \<Rightarrow> g | w \<Rightarrow> set_cell g i (fst jv) (display w))"

definition write_row :: "(jval \<Rightarrow> string) \<Rightarrow> nat \<Rightarrow> grid \<Rightarrow> nat \<times> jval list \<Rightarrow> grid" where
  "write_row display j g iv =
     foldl (write_cell display (fst iv)) g (zip [j ..< j + length (snd iv)] (snd iv))"

definition write_block :: "(jval \<Rightarrow> string) \<Rightarrow> nat \<Rightarrow> nat \<Rightarrow> jval list list \<Rightarrow> grid \<Rightarrow> grid" where
  "write_block display i j vals g =
     foldl (write_row display j) g (zip [i ..< i + length vals] vals)"

definition remote_step :: "(jval \<Rightarrow> string) \<Rightarrow> call \<Rightarrow> remote \<Rightarrow> message + reply \<times> remote" where
  "remote_step display c r =
     (case c of
        ValuesGet (Cols t c1 c2) \<Rightarrow>
          (case grid_of r t of
             None \<Rightarrow> Inl ''Unable to parse range''
           | Some g \<Rightarrow> Inr (values_of (select_cols c1 c2 g), r))
      | ValuesGet (Cells t c1 (Some r1) c2 (Some r2)) \<Rightarrow>
          (case grid_of r t of
             None \<Rightarrow> Inl ''Unable to parse range''
           | Some g \<Rightarrow>
               if 1 \<le> r1 \<and> r1 \<le> r2 \<and> c1 \<le> c2
               then Inr (values_of (select_cols c1 c2 (take (nat (r2 - r1 + 1)) (drop (nat (r1 - 1)) g))), r)
               else Inl ''Unable to parse range'')
      | ValuesGet (Cells t c1 _ c2 _) \<Rightarrow> Inl ''Unable to parse range''
      | ValuesAppend (Cols t c1 c2) vals \<Rightarrow>
          (case grid_of r t of
             None \<Rightarrow> Inl ''Unable to parse range''
           | Some g \<Rightarrow>
               Inr (Empty, put_grid r t (write_block display (length g) c1 vals (g @ replicate (length vals) []))))
      | ValuesAppend (Cells t c1 r1 c2 r2) vals \<Rightarrow> Inl ''Unable to parse range''
      | ValuesUpdate (Cells t c1 (Some r1) c2 (Some r2)) vals \<Rightarrow>
          (case grid_of r t of
             None \<Rightarrow> Inl ''Unable to parse range''
           | Some g \<Rightarrow>
               if 1 \<le> r1 \<and> r1 \<le> r2 \<and> c1 \<le> c2 \<and> int (length vals) \<le> r2 - r1 + 1
                  \<and> list_all (\<lambda>row. length row \<le> Suc c2 - c1) vals
               then Inr (Empty, put_grid r t (write_block display (nat (r1 - 1)) c1 vals g))
               else Inl ''Requested writing outside the range'')
      | ValuesUpdate _ vals \<Rightarrow> Inl ''Unable to parse range''
      | DeleteDimension sheetId (Some startIndex) (Some endIndex) \<Rightarrow>
          if sheetId = 0 \<and> 0 \<le> startIndex \<and> startIndex < endIndex
          then Inr (Empty, r\<lparr>Sheet1 := take (nat startIndex) (Sheet1 r) @ drop (nat endIndex) (Sheet1 r)\<rparr>)
          else Inl ''Invalid requests[0].deleteDimension''
      | DeleteDimension sheetId _ _ \<Rightarrow> Inl ''Invalid requests[0].deleteDimension''
      | SpreadsheetGet \<Rightarrow>
          Inr (SheetTitles (''Sheet1'' # (case Settings r of None \<Rightarrow> [] | Some g \<Rightarrow> [''Settings''])), r)
      | AddSheet t \<Rightarrow>
          if t = ''Settings'' \<and> Settings r = None then Inr (Empty, r\<lparr>Settings := Some []\<rparr>)
          else Inl ''Invalid requests[0].addSheet'')"

section \<open>The server\<close>

text \<open>
  The process around a request: the host, the spreadsheet id of the environment, the
  credentials the OAuth client holds, how the spreadsheet shows an entered value, and
  which of the request's spreadsheet calls fail, by position (\<open>Some\<close> the error message).
\<close>

record server = host +
  GOOGLE_SHEETS_ID :: "string option"
  credentials :: jval
  display :: "jval \<Rightarrow> string"
  failures :: "message option list"

record response =
  status :: nat
  body :: jval

definition res_status_json :: "nat \<Rightarrow> jval \<Rightarrow> response" where
  "res_status_json code x = \<lparr>status = code, body = json_elem x\<rparr>"

definition res_json :: "jval \<Rightarrow> response" where
  "res_json x = res_status_json 200 x"

text \<open>The \<open>catch\<close> of every handler: \<open>res.status(500).json({ error: error.message })\<close>.\<close>

definition res_error :: "message \<Rightarrow> response" where
  "res_error m = res_status_json 500 (JObj [(''error'', JStr m)])"

text \<open>A handler returns the response, the remote calls it made and the spreadsheet after it.\<close>

type_synonym outcome = "response \<times> event list \<times> remote"


definition opt_prop :: "jval \<Rightarrow> string \<Rightarrow> jval" where
  "opt_prop x k = (case x of JObj fs \<Rightarrow> obj_get fs k | _ \<Rightarrow> JUndef)"

text \<open>
  The guard of every spreadsheet route:
  \<open>!process.env.GOOGLE_SHEETS_ID || !oauth2Client.credentials?.access_token\<close>.
\<close>

definition configured :: "'a server_scheme \<Rightarrow> bool" where
  "configured c = (case GOOGLE_SHEETS_ID c of None \<Rightarrow> False | Some i \<Rightarrow> i \<noteq> [])"

definition not_authenticated :: "'a server_scheme \<Rightarrow> bool" where
  "not_authenticated c = (\<not> configured c \<or> \<not> truthy (opt_prop (credentials c) ''access_token''))"

text \<open>The \<open>n\<close>-th spreadsheet call of a request, from 0.\<close>

definition failure_at :: "'a server_scheme \<Rightarrow> nat \<Rightarrow> message option" where
  "failure_at c n = (if n < length (failures c) then failures c ! n else None)"

definition sheets_request :: "'a server_scheme \<Rightarrow> nat \<Rightarrow> call \<Rightarrow> remote \<Rightarrow> (message + reply) \<times> remote" where
  "sheets_request c n cl r =
     (case failure_at c n of
        Some m \<Rightarrow> (Inl m, r)
      | None \<Rightarrow>
          (case remote_step (display c) cl r of
             Inl m \<Rightarrow> (Inl m, r)
           | Inr (rep, r') \<Rightarrow> (Inr rep, r')))"

text \<open>\<open>response.data.values\<close> of a range read.\<close>

definition data_values :: "reply \<Rightarrow> grid option" where
  "data_values rep = (case rep of ValueRange v \<Rightarrow> v | _ \<Rightarrow> None)"

text \<open>\<open>row[i]\<close>: \<open>None\<close> is \<open>undefined\<close>.\<close>

definition cell :: "string list \<Rightarrow> nat \<Rightarrow> string option" where
  "cell row i = (if i < length row then Some (row ! i) else None)"

definition cell_val :: "string list \<Rightarrow> nat \<Rightarrow> jval" where
  "cell_val row i = (case cell row i of None \<Rightarrow> JUndef | Some s \<Rightarrow> JStr s)"

text \<open>\<open>row[0]?.toLowerCase() === 'date'\<close>.\<close>

definition header_cell :: "string list \<Rightarrow> bool" where
  "header_cell row = (case cell row 0 of None \<Rightarrow> False | Some s \<Rightarrow> toLowerCase s = ''date'')"

subsection \<open>Analyze\<close>






subsection \<open>Confirm\<close>

definition post_confirm :: "'a server_scheme \<Rightarrow> obj \<Rightarrow> remote \<Rightarrow> outcome" where
  "post_confirm c req_body r =
     (let food = obj_get req_body ''food'';
          calories = obj_get req_body ''calories'';
          protein = obj_get req_body ''protein'';
          carbs = obj_get req_body ''carbs'';
          fat = obj_get req_body ''fat'';
          date = obj_get req_body ''date'';
          time = obj_get req_body ''time'';
          answer = (\<lambda>logged rowIndex. res_json (JObj
                      [(''food'', food), (''calories'', calories), (''protein'', protein),
                       (''carbs'', carbs), (''fat'', fat), (''date'', date), (''time'', time),
                       (''logged'', JBool logged), (''rowIndex'', rowIndex)]))
      in if \<not> truthy food
         then (res_status_json 400 (JObj [(''error'', JStr ''Food description is required'')]), [], r)
         else if configured c \<and> truthy (opt_prop (credentials c) ''access_token'')
         then
           (let ap = ValuesAppend (Cols ''Sheet1'' 0 6)
                       [[date, time, food, calories, protein, carbs, fat]];
                gt = ValuesGet (Cols ''Sheet1'' 0 0)
            in (case sheets_request c 0 ap r of
                  (Inl m, r1) \<Rightarrow> (answer False JNull, [Sheets ap], r1)
                | (Inr rep, r1) \<Rightarrow>
                    (case sheets_request c 1 gt r1 of
                       (Inl m, r2) \<Rightarrow> (answer True JNull, [Sheets ap, Sheets gt], r2)
                     | (Inr response, r2) \<Rightarrow>
                         (answer True
                            (JNum (of_int
                               ((case data_values response of
                                   None \<Rightarrow> 1
                                 | Some vs \<Rightarrow> if length vs = 0 then 1 else int (length vs)) - 2))),
                          [Sheets ap, Sheets gt], r2))))
         else (answer False JNull, [], r))"

subsection \<open>Summary\<close>

text \<open>
  The running sums of the \<open>forEach\<close> over the rows. \<open>dailyTotals\<close> is the object keyed
  by the date text, in insertion order, each value the four sums of that day.
\<close>

record totals =
  totalCalories :: int
  totalProtein :: int
  totalCarbs :: int
  totalFat :: int
  entryCount :: nat
  dailyTotals :: "(string \<times> int \<times> int \<times> int \<times> int) list"

definition no_totals :: totals where
  "no_totals = \<lparr>totalCalories = 0, totalProtein = 0, totalCarbs = 0, totalFat = 0,
                 entryCount = 0, dailyTotals = []\<rparr>"

text \<open>
  \<open>dailyTotals\<close> starts as \<open>{}\<close>, so \<open>dailyTotals[dateKey]\<close> also finds what
  \<open>Object.prototype\<close> has under that name. Such a value is truthy: no own property is
  made, and the sums go to the inherited value.
\<close>

definition Object_prototype_keys :: "string list" where
  "Object_prototype_keys =
     [''constructor'', ''__defineGetter__'', ''__defineSetter__'', ''hasOwnProperty'',
      ''__lookupGetter__'', ''__lookupSetter__'', ''isPrototypeOf'', ''propertyIsEnumerable'',
      ''toString'', ''valueOf'', ''__proto__'', ''toLocaleString'']"

definition daily_add ::
  "(string \<times> int \<times> int \<times> int \<times> int) list \<Rightarrow> string \<Rightarrow> int \<times> int \<times> int \<times> int
     \<Rightarrow> (string \<times> int \<times> int \<times> int \<times> int) list" where
  "daily_add dt dateKey m =
     (if dateKey \<in> set Object_prototype_keys then dt
      else
        (case map_of dt dateKey of
           None \<Rightarrow> dt @ [(dateKey, m)]
         | Some old \<Rightarrow>
             map (\<lambda>kv. if fst kv = dateKey
                        then (dateKey,
                              fst old + fst m,
                              fst (snd old) + fst (snd m),
                              fst (snd (snd old)) + fst (snd (snd m)),
                              snd (snd (snd old)) + snd (snd (snd m)))
                        else kv) dt))"

text \<open>\<open>new Date(row[0])\<close>, \<open>None\<close> when \<open>isNaN(rowDate.getTime())\<close>.\<close>

definition row_date :: "'a server_scheme \<Rightarrow> string list \<Rightarrow> int option" where
  "row_date c row = (case cell row 0 of None \<Rightarrow> None | Some s \<Rightarrow> Date_parse c s)"

text \<open>\<open>parseInt(row[i]) || 0\<close>.\<close>

definition macro :: "string list \<Rightarrow> nat \<Rightarrow> int" where
  "macro row i = num_or (parseInt (cell row i)) 0"

text \<open>\<open>startDate\<close> from \<open>period\<close> and \<open>nowInTz\<close>; an Invalid Date is \<open>None\<close>.\<close>

definition window_start :: "'a server_scheme \<Rightarrow> jval \<Rightarrow> jsdate option \<Rightarrow> int option" where
  "window_start c period now =
     (case now of
        None \<Rightarrow> None
      | Some d \<Rightarrow>
          Some (if period = JStr ''daily''
                then new_Date c (full_year d) (month0 d) (day_of_month d)
                else if period = JStr ''weekly''
                then new_Date c (full_year d) (month0 d) (day_of_month d - 7)
                else if period = JStr ''monthly''
                then new_Date c (full_year d) (month0 d - 1) (day_of_month d)
                else new_Date c (full_year d) (month0 d) (day_of_month d)))"

text \<open>\<open>rowDate >= startDate && rowDate <= nowInTz\<close>; a comparison with an Invalid Date is false.\<close>

definition in_window :: "int option \<Rightarrow> jsdate option \<Rightarrow> int \<Rightarrow> bool" where
  "in_window startDate now rowDate =
     (case startDate of
        None \<Rightarrow> False
      | Some s \<Rightarrow> (case now of None \<Rightarrow> False | Some n \<Rightarrow> s \<le> rowDate \<and> rowDate \<le> time_value n))"

text \<open>The callback of \<open>rows.forEach((row, index) => ...)\<close>.\<close>

definition summary_row ::
  "'a server_scheme \<Rightarrow> int option \<Rightarrow> jsdate option \<Rightarrow> totals \<Rightarrow> nat \<times> string list \<Rightarrow> totals" where
  "summary_row c startDate now acc ir =
     (let index = fst ir; row = snd ir
      in if index = 0 \<and> header_cell row then acc
         else
           (case row_date c row of
              None \<Rightarrow> acc
            | Some rowDate \<Rightarrow>
                if in_window startDate now rowDate
                then
                  (let calories = macro row 3;
                       protein = macro row 4;
                       carbs = macro row 5;
                       fat = macro row 6
                   in acc\<lparr>totalCalories := totalCalories acc + calories,
                          totalProtein := totalProtein acc + protein,
                          totalCarbs := totalCarbs acc + carbs,
                          totalFat := totalFat acc + fat,
                          entryCount := entryCount acc + 1,
                          dailyTotals := daily_add (dailyTotals acc) (row ! 0)
                                           (calories, protein, carbs, fat)\<rparr>)
                else acc))"

definition summarize :: "'a server_scheme \<Rightarrow> jval \<Rightarrow> jsdate option \<Rightarrow> grid \<Rightarrow> totals" where
  "summarize c period now rows =
     foldl (summary_row c (window_start c period now) now) no_totals (enumerate 0 rows)"

text \<open>\<open>Object.keys(dailyTotals).length || 1\<close>.\<close>

definition daysCount :: "totals \<Rightarrow> nat" where
  "daysCount t = (if length (dailyTotals t) = 0 then 1 else length (dailyTotals t))"

definition average :: "int \<Rightarrow> nat \<Rightarrow> int" where
  "average tot days = Math_round (of_int tot / of_nat days)"

definition summary_json :: "jval \<Rightarrow> totals \<Rightarrow> jval" where
  "summary_json period t =
     JObj [(''period'', period),
           (''totalCalories'', JNum (of_int (totalCalories t))),
           (''totalProtein'', JNum (of_int (totalProtein t))),
           (''totalCarbs'', JNum (of_int (totalCarbs t))),
           (''totalFat'', JNum (of_int (totalFat t))),
           (''entryCount'', JNum (of_nat (entryCount t))),
           (''daysCount'', JNum (of_nat (daysCount t))),
           (''avgCalories'', JNum (of_int (average (totalCalories t) (daysCount t)))),
           (''avgProtein'', JNum (of_int (average (totalProtein t) (daysCount t)))),
           (''avgCarbs'', JNum (of_int (average (totalCarbs t) (daysCount t)))),
           (''avgFat'', JNum (of_int (average (totalFat t) (daysCount t)))),
           (''authenticated'', JBool True)]"

definition get_summary :: "'a server_scheme \<Rightarrow> obj \<Rightarrow> remote \<Rightarrow> outcome" where
  "get_summary c req_query r =
     (let period = obj_get req_query ''period'';
          timezone = obj_get req_query ''timezone'';
          tz = js_or timezone (JStr ''UTC'')
      in if not_authenticated c
         then (res_json (JObj [(''error'', JStr ''Not authenticated''), (''authenticated'', JBool False)]), [], r)
         else
           (let gt = ValuesGet (Cols ''Sheet1'' 0 6)
            in (case sheets_request c 0 gt r of
                  (Inl m, r1) \<Rightarrow> (res_error m, [Sheets gt], r1)
                | (Inr response, r1) \<Rightarrow>
                    (let rows = (case data_values response of None \<Rightarrow> [] | Some vs \<Rightarrow> vs)
                     in (case nowInTz c tz of
                           Inl m \<Rightarrow> (res_error m, [Sheets gt], r1)
                         | Inr now \<Rightarrow>
                             (res_json (summary_json period (summarize c period now rows)),
                              [Sheets gt], r1))))))"

subsection \<open>Entries\<close>

record entry =
  e_rowIndex :: int
  e_date :: jval
  e_time :: jval
  e_food :: jval
  e_calories :: int
  e_protein :: int
  e_carbs :: int
  e_fat :: int

definition entry_json :: "entry \<Rightarrow> jval" where
  "entry_json e =
     JObj [(''rowIndex'', JNum (of_int (e_rowIndex e))),
           (''date'', e_date e), (''time'', e_time e), (''food'', e_food e),
           (''calories'', JNum (of_int (e_calories e))),
           (''protein'', JNum (of_int (e_protein e))),
           (''carbs'', JNum (of_int (e_carbs e))),
           (''fat'', JNum (of_int (e_fat e))),
           (''logged'', JBool True)]"

text \<open>\<open>rows[0]?.[0]?.toLowerCase() === 'date'\<close>.\<close>

definition hasHeader :: "grid \<Rightarrow> bool" where
  "hasHeader rows = (case rows of [] \<Rightarrow> False | row # rest \<Rightarrow> header_cell row)"

definition entry_of :: "bool \<Rightarrow> nat \<times> string list \<Rightarrow> entry" where
  "entry_of hdr ir =
     \<lparr>e_rowIndex = (if hdr then int (fst ir) - 1 else int (fst ir)),
      e_date = cell_val (snd ir) 0,
      e_time = cell_val (snd ir) 1,
      e_food = cell_val (snd ir) 2,
      e_calories = macro (snd ir) 3,
      e_protein = macro (snd ir) 4,
      e_carbs = macro (snd ir) 5,
      e_fat = macro (snd ir) 6\<rparr>"

text \<open>The \<open>map\<close>, \<open>filter\<close>, \<open>map\<close> chain over the rows; \<open>row[0] === date\<close> is strict equality.\<close>

definition list_entries :: "grid \<Rightarrow> jval \<Rightarrow> entry list" where
  "list_entries rows date =
     map (entry_of (hasHeader rows))
       (filter (\<lambda>ir. \<not> (fst ir = 0 \<and> hasHeader rows) \<and> cell_val (snd ir) 0 = date)
          (enumerate 0 rows))"

definition get_entries :: "'a server_scheme \<Rightarrow> obj \<Rightarrow> remote \<Rightarrow> outcome" where
  "get_entries c req_query r =
     (let date = obj_get req_query ''date''
      in if not_authenticated c
         then (res_json (JObj [(''entries'', JArr []), (''authenticated'', JBool False)]), [], r)
         else
           (let gt = ValuesGet (Cols ''Sheet1'' 0 6)
            in (case sheets_request c 0 gt r of
                  (Inl m, r1) \<Rightarrow> (res_error m, [Sheets gt], r1)
                | (Inr response, r1) \<Rightarrow>
                    (let rows = (case data_values response of None \<Rightarrow> [] | Some vs \<Rightarrow> vs)
                     in (res_json (JObj [(''entries'', JArr (map entry_json (list_entries rows date))),
                                         (''authenticated'', JBool True)]),
                         [Sheets gt], r1)))))"

text \<open>\<open>parseInt(rowIndex) + 2\<close>; \<open>NaN\<close> stays \<open>NaN\<close>.\<close>

definition sheetRowIndex :: "string \<Rightarrow> int option" where
  "sheetRowIndex rowIndex = map_option (\<lambda>n. n + 2) (parseInt (Some rowIndex))"

definition delete_entry :: "'a server_scheme \<Rightarrow> string \<Rightarrow> remote \<Rightarrow> outcome" where
  "delete_entry c rowIndex r =
     (if not_authenticated c
      then (res_status_json 401 (JObj [(''error'', JStr ''Not authenticated'')]), [], r)
      else
        (let dl = DeleteDimension 0 (map_option (\<lambda>n. n - 1) (sheetRowIndex rowIndex))
                    (sheetRowIndex rowIndex)
         in (case sheets_request c 0 dl r of
               (Inl m, r1) \<Rightarrow> (res_error m, [Sheets dl], r1)
             | (Inr rep, r1) \<Rightarrow> (res_json (JObj [(''success'', JBool True)]), [Sheets dl], r1))))"

definition put_entry :: "'a server_scheme \<Rightarrow> string \<Rightarrow> obj \<Rightarrow> remote \<Rightarrow> outcome" where
  "put_entry c rowIndex req_body r =
     (let calories = obj_get req_body ''calories'';
          protein = obj_get req_body ''protein'';
          carbs = obj_get req_body ''carbs'';
          fat = obj_get req_body ''fat''
      in if not_authenticated c
         then (res_status_json 401 (JObj [(''error'', JStr ''Not authenticated'')]), [], r)
         else
           (let up = ValuesUpdate (Cells ''Sheet1'' 3 (sheetRowIndex rowIndex) 6 (sheetRowIndex rowIndex))
                       [[calories, protein, carbs, fat]]
            in (case sheets_request c 0 up r of
                  (Inl m, r1) \<Rightarrow> (res_error m, [Sheets up], r1)
                | (Inr rep, r1) \<Rightarrow> (res_json (JObj [(''success'', JBool True)]), [Sheets up], r1))))"

subsection \<open>Targets\<close>

definition default_targets :: jval where
  "default_targets =
     JObj [(''calories'', JNum 1800), (''protein'', JNum 180), (''carbs'', JNum 115), (''fat'', JNum 65)]"

definition get_targets :: "'a server_scheme \<Rightarrow> remote \<Rightarrow> outcome" where
  "get_targets c r =
     (if not_authenticated c
      then (res_status_json 401 (JObj [(''error'', JStr ''Not authenticated'')]), [], r)
      else
        (let gt = ValuesGet (Cells ''Settings'' 0 (Some 2) 3 (Some 2))
         in (case sheets_request c 0 gt r of
               (Inl err, r1) \<Rightarrow> (res_json default_targets, [Sheets gt], r1)
             | (Inr response, r1) \<Rightarrow>
                 (case data_values response of
                    Some (row # rest) \<Rightarrow>
                      (res_json (JObj
                         [(''calories'', JNum (of_int (num_or (parseInt (cell row 0)) 1800))),
                          (''protein'', JNum (of_int (num_or (parseInt (cell row 1)) 180))),
                          (''carbs'', JNum (of_int (num_or (parseInt (cell row 2)) 115))),
                          (''fat'', JNum (of_int (num_or (parseInt (cell row 3)) 65)))]),
                       [Sheets gt], r1)
                  | _ \<Rightarrow> (res_json default_targets, [Sheets gt], r1)))))"

definition sheet_titles :: "reply \<Rightarrow> string list" where
  "sheet_titles rep = (case rep of SheetTitles ts \<Rightarrow> ts | _ \<Rightarrow> [])"

definition put_targets :: "'a server_scheme \<Rightarrow> obj \<Rightarrow> remote \<Rightarrow> outcome" where
  "put_targets c req_body r =
     (let calories = obj_get req_body ''calories'';
          protein = obj_get req_body ''protein'';
          carbs = obj_get req_body ''carbs'';
          fat = obj_get req_body ''fat'';
          sg = SpreadsheetGet;
          ad = AddSheet ''Settings'';
          hr = ValuesUpdate (Cells ''Settings'' 0 (Some 1) 3 (Some 1))
                 [[JStr ''Calories'', JStr ''Protein'', JStr ''Carbs'', JStr ''Fat'']];
          sv = ValuesUpdate (Cells ''Settings'' 0 (Some 2) 3 (Some 2))
                 [[calories, protein, carbs, fat]];
          ok = res_json (JObj [(''success'', JBool True)])
      in if not_authenticated c
         then (res_status_json 401 (JObj [(''error'', JStr ''Not authenticated'')]), [], r)
         else
           (case sheets_request c 0 sg r of
              (Inl m, r1) \<Rightarrow> (res_error m, [Sheets sg], r1)
            | (Inr spreadsheet, r1) \<Rightarrow>
                if find (\<lambda>title. title = ''Settings'') (sheet_titles spreadsheet) = None
                then
                  (case sheets_request c 1 ad r1 of
                     (Inl m, r2) \<Rightarrow> (res_error m, [Sheets sg, Sheets ad], r2)
                   | (Inr rep, r2) \<Rightarrow>
                       (case sheets_request c 2 hr r2 of
                          (Inl m, r3) \<Rightarrow> (res_error m, [Sheets sg, Sheets ad, Sheets hr], r3)
                        | (Inr rep, r3) \<Rightarrow>
                            (case sheets_request c 3 sv r3 of
                               (Inl m, r4) \<Rightarrow>
                                 (res_error m, [Sheets sg, Sheets ad, Sheets hr, Sheets sv], r4)
                             | (Inr rep, r4) \<Rightarrow>
                                 (ok, [Sheets sg, Sheets ad, Sheets hr, Sheets sv], r4))))
                else
                  (case sheets_request c 1 sv r1 of
                     (Inl m, r2) \<Rightarrow> (res_error m, [Sheets sg, Sheets sv], r2)
                   | (Inr rep, r2) \<Rightarrow> (ok, [Sheets sg, Sheets sv], r2))))"

section \<open>Notions the properties are stated with\<close>

text \<open>The field a reader of the token file finds under a name.\<close>

definition stored_field :: "token_file \<Rightarrow> string \<Rightarrow> jval option" where
  "stored_field file k =
     (case file of None \<Rightarrow> None | Some v \<Rightarrow> Some (obj_get (own_props v) k))"

text \<open>
  The rows a summary is about: not the header row, with a date cell that parses, and
  with that date from \<open>startDate\<close> to \<open>nowInTz\<close>, both ends included. No macro cell
  is looked at.
\<close>

definition matches :: "'a server_scheme \<Rightarrow> int option \<Rightarrow> jsdate option \<Rightarrow> nat \<times> string list \<Rightarrow> bool" where
  "matches c startDate now ir =
     (\<not> (fst ir = 0 \<and> header_cell (snd ir))
      \<and> (case row_date c (snd ir) of None \<Rightarrow> False | Some t \<Rightarrow> in_window startDate now t))"

definition matched :: "'a server_scheme \<Rightarrow> jval \<Rightarrow> jsdate option \<Rightarrow> grid \<Rightarrow> (nat \<times> string list) list" where
  "matched c period now rows =
     filter (matches c (window_start c period now) now) (enumerate 0 rows)"

text \<open>The date text of the matched rows, the keys of the per-day breakdown.\<close>

definition date_keys :: "(nat \<times> string list) list \<Rightarrow> string set" where
  "date_keys irs = (\<lambda>ir. snd ir ! 0) ` set irs"

text \<open>The date cells of a ledger, row by row; \<open>None\<close> for a row without cells.\<close>

definition date_cells :: "grid \<Rightarrow> string option list" where
  "date_cells rows = map (\<lambda>row. cell row 0) rows"

text \<open>What one matched row adds to the running sums.\<close>

definition add_row :: "totals \<Rightarrow> nat \<times> string list \<Rightarrow> totals" where
  "add_row acc ir =
     acc\<lparr>totalCalories := totalCalories acc + macro (snd ir) 3,
         totalProtein := totalProtein acc + macro (snd ir) 4,
         totalCarbs := totalCarbs acc + macro (snd ir) 5,
         totalFat := totalFat acc + macro (snd ir) 6,
         entryCount := entryCount acc + 1,
         dailyTotals := daily_add (dailyTotals acc) (snd ir ! 0)
                          (macro (snd ir) 3, macro (snd ir) 4, macro (snd ir) 5, macro (snd ir) 6)\<rparr>"

text \<open>
  The range in which the doubles of the code are the integers of the model: the
  absolute values of each macro column of the matched rows add up to less than \<open>2^52\<close>
  (so every running sum is exact, and the quotient rounds as the exact one), and every
  macro cell of a listed row is at most \<open>2^53\<close> in size.
\<close>

definition exact_sums :: "(nat \<times> string list) list \<Rightarrow> bool" where
  "exact_sums irs = list_all (\<lambda>i. (\<Sum>ir\<leftarrow>irs. \<bar>macro (snd ir) i\<bar>) < 2 ^ 52) [3, 4, 5, 6]"

definition exact_cells :: "grid \<Rightarrow> bool" where
  "exact_cells rows = list_all (\<lambda>row. list_all (\<lambda>i. \<bar>macro row i\<bar> \<le> 2 ^ 53) [3, 4, 5, 6]) rows"

text \<open>The test of the \<open>filter\<close> in \<open>GET /entries\<close>, for a ledger with or without a header.\<close>

definition keeps :: "bool \<Rightarrow> jval \<Rightarrow> nat \<times> string list \<Rightarrow> bool" where
  "keeps h date ir = (\<not> (fst ir = 0 \<and> h) \<and> cell_val (snd ir) 0 = date)"

text \<open>An entry as it is listed after the entry with index \<open>k\<close> has been deleted.\<close>

definition shift_entry :: "int \<Rightarrow> entry \<Rightarrow> entry" where
  "shift_entry k e = (if k < e_rowIndex e then e\<lparr>e_rowIndex := e_rowIndex e - 1\<rparr> else e)"

text \<open>The local midnight that starts the day with number \<open>date\<close> of a month.\<close>

definition local_midnight :: "int \<Rightarrow> int \<Rightarrow> int \<Rightarrow> int" where
  "local_midnight year month date = MakeDay year month date * msPerDay"

subsection \<open>A server and a ledger to evaluate on\<close>

text \<open>
  A host in the zone UTC whose parser knows the dates of the ledger below, a
  completion API that answers with one fixed estimate, and a spreadsheet that shows
  text, and the few numbers used, as typed.
\<close>

definition example_dates :: "(string \<times> int \<times> int \<times> int) list" where
  "example_dates =
     [(''2/29/2024'', 2024, 1, 29), (''3/1/2024'', 2024, 2, 1), (''3/9/2024'', 2024, 2, 9),
      (''3/10/2024'', 2024, 2, 10), (''3/11/2024'', 2024, 2, 11), (''3/31/2024'', 2024, 2, 31)]"

definition example_parse :: "string \<Rightarrow> int option" where
  "example_parse s =
     (case map_of example_dates s of
        None \<Rightarrow> None
      | Some ymd \<Rightarrow> Some (local_midnight (fst ymd) (fst (snd ymd)) (snd (snd ymd))))"

definition example_numerals :: "(rat \<times> string) list" where
  "example_numerals = [(0, ''0''), (7, ''7''), (12, ''12''), (30, ''30''), (250, ''250'')]"

definition example_display :: "jval \<Rightarrow> string" where
  "example_display v =
     (case v of
        JStr s \<Rightarrow> s
      | JNum n \<Rightarrow> (case map_of example_numerals n of None \<Rightarrow> ''#'' | Some s \<Rightarrow> s)
      | _ \<Rightarrow> [])"

definition example_now :: jsdate where
  "example_now = \<lparr>time_value = local_midnight 2024 2 10 + 54000000,
                   full_year = 2024, month0 = 2, day_of_month = 10\<rparr>"

definition example_server :: server where
  "example_server =
     \<lparr>complete = (\<lambda>p. Inr (JObj [(''calories'', JNum 250), (''protein'', JNum 30),
                                  (''carbs'', JNum 0), (''fat'', JNum 12)])),
      toLocaleDateString = (\<lambda>tz. Inr ''3/10/2024''),
      toLocaleTimeString = (\<lambda>tz. Inr ''03:00 PM''),
      defaultDateString = ''3/10/2024'',
      defaultTimeString = ''03:00 PM'',
      nowInTz = (\<lambda>tz. Inr (Some example_now)),
      Date_parse = example_parse,
      UTC_of_local = (\<lambda>t. t),
      GOOGLE_SHEETS_ID = Some ''sheet-id'',
      credentials = JObj [(''access_token'', JStr ''ya29''), (''refresh_token'', JStr ''1//r'')],
      display = example_display,
      failures = []\<rparr>"

definition example_ledger :: remote where
  "example_ledger =
     \<lparr>Sheet1 = [[''Date'', ''Time'', ''Food'', ''Calories'', ''Protein'', ''Carbs'', ''Fat''],
                [''3/9/2024'', ''08:00 AM'', ''oats'', ''300'', ''10'', ''50'', ''5''],
                [''3/10/2024'', ''09:00 AM'', ''eggs'', ''150'', ''12'', ''1'', ''10''],
                [''3/10/2024'', ''01:00 PM'', ''rice'', ''abc'', ''4''],
                [''3/11/2024'', ''01:00 PM'', ''soup'', ''90'', ''4'', ''9'', ''2'']],
      Settings = None\<rparr>"

section \<open>JSON values and objects\<close>

lemma json_fixed:
  "(is_json v \<longrightarrow> json_elem v = v)"
  "(are_json_fields fs \<longrightarrow> json_fields fs = fs)"
  "(are_json xs \<longrightarrow> json_elems xs = xs)"
  by (induction v and fs and xs rule: is_json_are_json_fields_are_json.induct) auto

lemma map_of_obj_set: "map_of (obj_set fs k v) = (map_of fs)(k \<mapsto> v)"
  by (induction fs k v rule: obj_set.induct) auto

lemma map_of_spread_other:
  "k \<notin> fst ` set over \<Longrightarrow> map_of (spread base over) k = map_of base k"
  unfolding spread_def
  by (induction over arbitrary: base) (auto simp: map_of_obj_set)

lemma map_of_spread_distinct:
  "distinct (map fst over) \<Longrightarrow> map_of over k = Some v \<Longrightarrow> map_of (spread base over) k = Some v"
  unfolding spread_def
  by (induction over arbitrary: base)
     (auto simp: map_of_obj_set map_of_spread_other[unfolded spread_def] split: if_splits)

lemma map_of_json_fields_None:
  "map_of fs k = None \<Longrightarrow> map_of (json_fields fs) k = None"
  by (induction fs) (auto split: if_splits)

lemma map_of_json_fields_Some:
  "map_of fs k = Some v \<Longrightarrow> v \<noteq> JUndef \<Longrightarrow> map_of (json_fields fs) k = Some (json_elem v)"
  by (induction fs) (auto split: if_splits)

lemma are_json_fields_map_of:
  "are_json_fields fs \<Longrightarrow> map_of fs k = Some v \<Longrightarrow> is_json v"
  by (induction fs) (auto split: if_splits)

lemma index_props_json:
  "are_json xs \<Longrightarrow> are_json_fields (index_props n xs)"
  by (induction xs arbitrary: n) simp_all

lemma index_props_strings_json:
  "are_json_fields (index_props n (map JStr cs))"
  by (induction cs arbitrary: n) simp_all

lemma own_props_json:
  "is_json v \<Longrightarrow> are_json_fields (own_props v)"
  by (cases v) (simp_all add: index_props_json index_props_strings_json)

text \<open>A field of the merged record that the payload does not name is the stored one.\<close>

lemma merged_field_kept:
  assumes "k \<notin> fst ` set tokens" and "is_json existing"
  shows "obj_get (json_fields (spread (own_props existing) tokens)) k = obj_get (own_props existing) k"
proof (cases "map_of (own_props existing) k")
  case None
  then have "map_of (spread (own_props existing) tokens) k = None"
    using assms(1) by (simp add: map_of_spread_other)
  then show ?thesis
    using None by (simp add: obj_get_def map_of_json_fields_None)
next
  case (Some v)
  with assms(2) have j: "is_json v"
    by (auto dest: own_props_json are_json_fields_map_of)
  have "map_of (spread (own_props existing) tokens) k = Some v"
    using Some assms(1) by (simp add: map_of_spread_other)
  then have "map_of (json_fields (spread (own_props existing) tokens)) k = Some (json_elem v)"
    using j by (intro map_of_json_fields_Some) auto
  then show ?thesis
    using Some j json_fixed(1) by (simp add: obj_get_def)
qed

lemma merged_field_new:
  assumes "distinct (map fst tokens)" and "map_of tokens k = Some v" and "v \<noteq> JUndef"
  shows "obj_get (json_fields (spread base tokens)) k = json_elem v"
  using assms by (simp add: obj_get_def map_of_json_fields_Some map_of_spread_distinct)

text \<open>
  C2. A refresh event whose payload has no \<open>refresh_token\<close> property writes the
  stored record with the payload's fields laid over it: the stored \<open>refresh_token\<close>,
  like every field the payload does not name, is after the save what it was before, and
  a field the payload names has the payload's value. (With no readable file the
  listener throws and nothing is written.) A payload with a \<open>refresh_token\<close>, which
  the listener tests for truthiness, replaces the record by the payload alone.
\<close>

theorem refresh_keeps_refresh_token:
  "(''refresh_token'' \<notin> fst ` set tokens \<and> distinct (map fst tokens)
      \<and> (\<forall>existing. stored = Some existing \<longrightarrow> is_json existing)
    \<longrightarrow> stored_refresh_token (file_after tokens stored) = stored_refresh_token stored
        \<and> (\<forall>existing. stored = Some existing \<longrightarrow>
              on_tokens tokens stored = Inr (saveTokens (spread (own_props existing) tokens)))
        \<and> (\<forall>k. k \<notin> fst ` set tokens \<longrightarrow>
              stored_field (file_after tokens stored) k = stored_field stored k)
        \<and> (\<forall>k v. stored \<noteq> None \<and> map_of tokens k = Some v \<and> v \<noteq> JUndef \<longrightarrow>
              stored_field (file_after tokens stored) k = Some (json_elem v)))
   \<and> (truthy (obj_get tokens ''refresh_token'')
    \<longrightarrow> on_tokens tokens stored = Inr (saveTokens tokens)
        \<and> file_after tokens stored = Some (JObj (json_fields tokens)))"
proof (intro conjI impI)
  assume a: "''refresh_token'' \<notin> fst ` set tokens \<and> distinct (map fst tokens)
      \<and> (\<forall>existing. stored = Some existing \<longrightarrow> is_json existing)"
  then have none: "map_of tokens ''refresh_token'' = None"
    by (simp add: map_of_eq_None_iff)
  then have falsy: "\<not> truthy (obj_get tokens ''refresh_token'')"
    by (simp add: obj_get_def)
  show "stored_refresh_token (file_after tokens stored) = stored_refresh_token stored"
    using a falsy
    by (cases stored)
       (simp_all add: stored_refresh_token_def file_after_def on_tokens_def saveTokens_def
          merged_field_kept)
  show "\<forall>existing. stored = Some existing \<longrightarrow>
          on_tokens tokens stored = Inr (saveTokens (spread (own_props existing) tokens))"
    using falsy by (simp add: on_tokens_def)
  show "\<forall>k. k \<notin> fst ` set tokens \<longrightarrow>
          stored_field (file_after tokens stored) k = stored_field stored k"
    using a falsy
    by (cases stored)
       (simp_all add: stored_field_def file_after_def on_tokens_def saveTokens_def
          merged_field_kept)
  show "\<forall>k v. stored \<noteq> None \<and> map_of tokens k = Some v \<and> v \<noteq> JUndef \<longrightarrow>
          stored_field (file_after tokens stored) k = Some (json_elem v)"
    using a falsy
    by (cases stored)
       (auto simp: stored_field_def file_after_def on_tokens_def saveTokens_def
          merged_field_new)
next
  assume t: "truthy (obj_get tokens ''refresh_token'')"
  then show "on_tokens tokens stored = Inr (saveTokens tokens)"
    by (simp add: on_tokens_def)
  from t show "file_after tokens stored = Some (JObj (json_fields tokens))"
    by (simp add: file_after_def on_tokens_def saveTokens_def)
qed

theorem refresh_keeps_refresh_token_witness:
  "stored_refresh_token
     (file_after [(''access_token'', JStr ''new''), (''expiry_date'', JNum 2)]
        (Some (JObj [(''access_token'', JStr ''old''), (''refresh_token'', JStr ''1//r'')])))
     = Some (JStr ''1//r'')
   \<and> file_after [(''access_token'', JStr ''new''), (''refresh_token'', JStr ''1//s'')]
        (Some (JObj [(''access_token'', JStr ''old''), (''refresh_token'', JStr ''1//r''),
                     (''scope'', JStr ''sheets'')]))
     = Some (JObj [(''access_token'', JStr ''new''), (''refresh_token'', JStr ''1//s'')])"
proof -
  have lacks: "''refresh_token'' \<notin> fst ` set [(''access_token'', JStr ''new''), (''expiry_date'', JNum 2)]
      \<and> distinct (map fst [(''access_token'', JStr ''new''), (''expiry_date'', JNum 2)])
      \<and> (\<forall>existing. Some (JObj [(''access_token'', JStr ''old''), (''refresh_token'', JStr ''1//r'')])
             = Some existing \<longrightarrow> is_json existing)"
    by simp
  have has: "truthy (obj_get [(''access_token'', JStr ''new''), (''refresh_token'', JStr ''1//s'')]
               ''refresh_token'')"
    by (simp add: obj_get_def)
  from lacks refresh_keeps_refresh_token
          [of "[(''access_token'', JStr ''new''), (''expiry_date'', JNum 2)]"
              "Some (JObj [(''access_token'', JStr ''old''), (''refresh_token'', JStr ''1//r'')])"]
  have "stored_refresh_token
     (file_after [(''access_token'', JStr ''new''), (''expiry_date'', JNum 2)]
        (Some (JObj [(''access_token'', JStr ''old''), (''refresh_token'', JStr ''1//r'')])))
     = stored_refresh_token
        (Some (JObj [(''access_token'', JStr ''old''), (''refresh_token'', JStr ''1//r'')]))"
    by blast
  moreover from has refresh_keeps_refresh_token
          [of "[(''access_token'', JStr ''new''), (''refresh_token'', JStr ''1//s'')]"
              "Some (JObj [(''access_token'', JStr ''old''), (''refresh_token'', JStr ''1//r''),
                           (''scope'', JStr ''sheets'')])"]
  have "file_after [(''access_token'', JStr ''new''), (''refresh_token'', JStr ''1//s'')]
        (Some (JObj [(''access_token'', JStr ''old''), (''refresh_token'', JStr ''1//r''),
                     (''scope'', JStr ''sheets'')]))
     = Some (JObj (json_fields [(''access_token'', JStr ''new''), (''refresh_token'', JStr ''1//s'')]))"
    by blast
  ultimately show ?thesis
    by (simp add: stored_refresh_token_def obj_get_def)
qed

section \<open>Routes without credentials\<close>

text \<open>
  C4. With no spreadsheet id in the environment or no access token in the credentials,
  the delete, update and both targets routes answer 401 with an error body, the
  summary and entries routes answer 200 with \<open>authenticated: false\<close>, and none of the
  six makes a spreadsheet call or changes the spreadsheet.
\<close>

theorem unauthenticated_routes:
  assumes "not_authenticated c"
  shows "delete_entry c rowIndex r
           = (\<lparr>status = 401, body = JObj [(''error'', JStr ''Not authenticated'')]\<rparr>, [], r)
       \<and> put_entry c rowIndex req_body r
           = (\<lparr>status = 401, body = JObj [(''error'', JStr ''Not authenticated'')]\<rparr>, [], r)
       \<and> get_targets c r
           = (\<lparr>status = 401, body = JObj [(''error'', JStr ''Not authenticated'')]\<rparr>, [], r)
       \<and> put_targets c req_body r
           = (\<lparr>status = 401, body = JObj [(''error'', JStr ''Not authenticated'')]\<rparr>, [], r)
       \<and> get_summary c req_query r
           = (\<lparr>status = 200,
               body = JObj [(''error'', JStr ''Not authenticated''), (''authenticated'', JBool False)]\<rparr>,
              [], r)
       \<and> get_entries c req_query r
           = (\<lparr>status = 200,
               body = JObj [(''entries'', JArr []), (''authenticated'', JBool False)]\<rparr>,
              [], r)"
proof (intro conjI)
  show "delete_entry c rowIndex r
          = (\<lparr>status = 401, body = JObj [(''error'', JStr ''Not authenticated'')]\<rparr>, [], r)"
    using assms by (simp add: delete_entry_def res_status_json_def)
  show "put_entry c rowIndex req_body r
          = (\<lparr>status = 401, body = JObj [(''error'', JStr ''Not authenticated'')]\<rparr>, [], r)"
    using assms by (simp add: put_entry_def res_status_json_def)
  show "get_targets c r
          = (\<lparr>status = 401, body = JObj [(''error'', JStr ''Not authenticated'')]\<rparr>, [], r)"
    using assms by (simp add: get_targets_def res_status_json_def)
  show "put_targets c req_body r
          = (\<lparr>status = 401, body = JObj [(''error'', JStr ''Not authenticated'')]\<rparr>, [], r)"
    using assms by (simp add: put_targets_def res_status_json_def)
  show "get_summary c req_query r
          = (\<lparr>status = 200,
              body = JObj [(''error'', JStr ''Not authenticated''), (''authenticated'', JBool False)]\<rparr>,
             [], r)"
    using assms by (simp add: get_summary_def res_json_def res_status_json_def)
  show "get_entries c req_query r
          = (\<lparr>status = 200,
              body = JObj [(''entries'', JArr []), (''authenticated'', JBool False)]\<rparr>,
             [], r)"
    using assms by (simp add: get_entries_def res_json_def res_status_json_def)
qed

lemma example_server_signed_out:
  "not_authenticated (example_server\<lparr>credentials := JObj []\<rparr>)"
  by (simp add: not_authenticated_def example_server_def opt_prop_def obj_get_def)

theorem unauthenticated_routes_witness:
  "not_authenticated (example_server\<lparr>credentials := JObj []\<rparr>)
   \<and> delete_entry (example_server\<lparr>credentials := JObj []\<rparr>) ''0'' example_ledger
       = (\<lparr>status = 401, body = JObj [(''error'', JStr ''Not authenticated'')]\<rparr>, [], example_ledger)
   \<and> get_summary (example_server\<lparr>credentials := JObj []\<rparr>) [(''period'', JStr ''daily'')] example_ledger
       = (\<lparr>status = 200,
           body = JObj [(''error'', JStr ''Not authenticated''), (''authenticated'', JBool False)]\<rparr>,
          [], example_ledger)"
  using unauthenticated_routes [OF example_server_signed_out, of "''0''" example_ledger]
        example_server_signed_out
  by simp

section \<open>Analyze and confirm\<close>


















text \<open>
  C3. A \<open>/confirm\<close> request with a food description whose append call fails is
  answered 200 with the submitted fields, \<open>logged: false\<close> and \<open>rowIndex: null\<close>; the
  append was the only call made and the spreadsheet is as before.
\<close>

theorem confirm_survives_append_failure:
  assumes "truthy (obj_get req_body ''food'')"
    and "\<not> not_authenticated c"
    and "failure_at c 0 = Some m"
  shows "post_confirm c req_body r
           = (\<lparr>status = 200,
               body = json_elem (JObj
                        [(''food'', obj_get req_body ''food''),
                         (''calories'', obj_get req_body ''calories''),
                         (''protein'', obj_get req_body ''protein''),
                         (''carbs'', obj_get req_body ''carbs''),
                         (''fat'', obj_get req_body ''fat''),
                         (''date'', obj_get req_body ''date''),
                         (''time'', obj_get req_body ''time''),
                         (''logged'', JBool False),
                         (''rowIndex'', JNull)])\<rparr>,
              [Sheets (ValuesAppend (Cols ''Sheet1'' 0 6)
                 [[obj_get req_body ''date'', obj_get req_body ''time'', obj_get req_body ''food'',
                   obj_get req_body ''calories'', obj_get req_body ''protein'',
                   obj_get req_body ''carbs'', obj_get req_body ''fat'']])],
              r)
       \<and> opt_prop (body (fst (post_confirm c req_body r))) ''logged'' = JBool False
       \<and> opt_prop (body (fst (post_confirm c req_body r))) ''rowIndex'' = JNull
       \<and> opt_prop (body (fst (post_confirm c req_body r))) ''food'' = json_elem (obj_get req_body ''food'')"
proof -
  have out: "post_confirm c req_body r
           = (\<lparr>status = 200,
               body = json_elem (JObj
                        [(''food'', obj_get req_body ''food''),
                         (''calories'', obj_get req_body ''calories''),
                         (''protein'', obj_get req_body ''protein''),
                         (''carbs'', obj_get req_body ''carbs''),
                         (''fat'', obj_get req_body ''fat''),
                         (''date'', obj_get req_body ''date''),
                         (''time'', obj_get req_body ''time''),
                         (''logged'', JBool False),
                         (''rowIndex'', JNull)])\<rparr>,
              [Sheets (ValuesAppend (Cols ''Sheet1'' 0 6)
                 [[obj_get req_body ''date'', obj_get req_body ''time'', obj_get req_body ''food'',
                   obj_get req_body ''calories'', obj_get req_body ''protein'',
                   obj_get req_body ''carbs'', obj_get req_body ''fat'']])],
              r)"
    using assms
    by (simp add: post_confirm_def Let_def not_authenticated_def sheets_request_def
          res_json_def res_status_json_def)
  have food: "obj_get req_body ''food'' \<noteq> JUndef"
    using assms(1) by auto
  show ?thesis
    unfolding out using food
    by (simp add: opt_prop_def obj_get_def map_of_json_fields_Some del: json_fields.simps)
qed

theorem confirm_survives_append_failure_witness:
  "truthy (obj_get [(''food'', JStr ''chicken''), (''calories'', JNum 250)] ''food'')
   \<and> \<not> not_authenticated (example_server\<lparr>failures := [Some ''quota exceeded'']\<rparr>)
   \<and> failure_at (example_server\<lparr>failures := [Some ''quota exceeded'']\<rparr>) 0 = Some ''quota exceeded''
   \<and> fst (post_confirm (example_server\<lparr>failures := [Some ''quota exceeded'']\<rparr>)
            [(''food'', JStr ''chicken''), (''calories'', JNum 250)] example_ledger)
       = \<lparr>status = 200,
          body = JObj [(''food'', JStr ''chicken''), (''calories'', JNum 250),
                       (''logged'', JBool False), (''rowIndex'', JNull)]\<rparr>"
proof -
  have food: "truthy (obj_get [(''food'', JStr ''chicken''), (''calories'', JNum 250)] ''food'')"
    by (simp add: obj_get_def)
  have auth: "\<not> not_authenticated (example_server\<lparr>failures := [Some ''quota exceeded'']\<rparr>)"
    by (simp add: not_authenticated_def configured_def example_server_def opt_prop_def obj_get_def)
  have fails: "failure_at (example_server\<lparr>failures := [Some ''quota exceeded'']\<rparr>) 0
                 = Some ''quota exceeded''"
    by (simp add: failure_at_def)
  show ?thesis
    using confirm_survives_append_failure [OF food auth fails, of example_ledger] food auth fails
    by (simp add: obj_get_def)
qed

section \<open>Targets\<close>

lemma targets_read_absent:
  "Settings r = None \<Longrightarrow>
     sheets_request c 0 (ValuesGet (Cells ''Settings'' 0 (Some 2) 3 (Some 2))) r
       = (Inl (case failure_at c 0 of None \<Rightarrow> ''Unable to parse range'' | Some m \<Rightarrow> m), r)"
  by (simp add: sheets_request_def remote_step_def grid_of_def split: option.splits)

lemma targets_read_failed:
  "failure_at c 0 = Some m \<Longrightarrow> sheets_request c 0 cl r = (Inl m, r)"
  by (simp add: sheets_request_def)

lemma targets_read_empty:
  assumes "Settings r = Some g" and "length g \<le> 1" and "failure_at c 0 = None"
  shows "sheets_request c 0 (ValuesGet (Cells ''Settings'' 0 (Some 2) 3 (Some 2))) r
           = (Inr (ValueRange None), r)"
  using assms
  by (simp add: sheets_request_def remote_step_def grid_of_def values_of_def select_cols_def)

lemma targets_default_reply:
  assumes "\<not> not_authenticated c"
    and "(\<exists>m. sheets_request c 0 (ValuesGet (Cells ''Settings'' 0 (Some 2) 3 (Some 2))) r = (Inl m, r))
         \<or> (\<exists>rep. sheets_request c 0 (ValuesGet (Cells ''Settings'' 0 (Some 2) 3 (Some 2))) r = (Inr rep, r)
                \<and> (data_values rep = None \<or> data_values rep = Some []))"
  shows "get_targets c r
           = (res_json default_targets,
              [Sheets (ValuesGet (Cells ''Settings'' 0 (Some 2) 3 (Some 2)))], r)"
  using assms by (auto simp: get_targets_def Let_def)

text \<open>
  C9. With credentials, when the Settings sheet does not exist, when the read of
  \<open>Settings!A2:D2\<close> fails for any other reason, or when the sheet has nothing in its
  second row, \<open>GET /settings/targets\<close> answers 200 with exactly
  \<open>{calories: 1800, protein: 180, carbs: 115, fat: 65}\<close>, after that one read.
\<close>

theorem targets_default_when_absent:
  assumes "\<not> not_authenticated c"
    and "Settings r = None \<or> (\<exists>m. failure_at c 0 = Some m)
         \<or> (\<exists>g. Settings r = Some g \<and> length g \<le> 1)"
  shows "get_targets c r
           = (\<lparr>status = 200,
               body = JObj [(''calories'', JNum 1800), (''protein'', JNum 180),
                            (''carbs'', JNum 115), (''fat'', JNum 65)]\<rparr>,
              [Sheets (ValuesGet (Cells ''Settings'' 0 (Some 2) 3 (Some 2)))], r)"
proof -
  let ?gt = "ValuesGet (Cells ''Settings'' 0 (Some 2) 3 (Some 2))"
  have "(\<exists>m. sheets_request c 0 ?gt r = (Inl m, r))
         \<or> (\<exists>rep. sheets_request c 0 ?gt r = (Inr rep, r)
                \<and> (data_values rep = None \<or> data_values rep = Some []))"
  proof (cases "failure_at c 0")
    case (Some m)
    then show ?thesis by (simp add: targets_read_failed)
  next
    case None
    show ?thesis
    proof (cases "Settings r")
      case absent: None
      then show ?thesis by (simp add: targets_read_absent)
    next
      case (Some g)
      with assms(2) None have "length g \<le> 1" by auto
      with Some None show ?thesis by (simp add: targets_read_empty data_values_def)
    qed
  qed
  with assms(1) have "get_targets c r = (res_json default_targets, [Sheets ?gt], r)"
    by (rule targets_default_reply)
  then show ?thesis
    by (simp add: res_json_def res_status_json_def default_targets_def)
qed

theorem targets_default_when_absent_witness:
  "\<not> not_authenticated example_server
   \<and> Settings example_ledger = None
   \<and> get_targets example_server example_ledger
       = (\<lparr>status = 200,
           body = JObj [(''calories'', JNum 1800), (''protein'', JNum 180),
                        (''carbs'', JNum 115), (''fat'', JNum 65)]\<rparr>,
          [Sheets (ValuesGet (Cells ''Settings'' 0 (Some 2) 3 (Some 2)))], example_ledger)"
proof -
  have auth: "\<not> not_authenticated example_server"
    by (simp add: not_authenticated_def configured_def example_server_def opt_prop_def obj_get_def)
  have absent: "Settings example_ledger = None"
    by (simp add: example_ledger_def)
  then have "Settings example_ledger = None \<or> (\<exists>m. failure_at example_server 0 = Some m)
         \<or> (\<exists>g. Settings example_ledger = Some g \<and> length g \<le> 1)"
    by simp
  from targets_default_when_absent [OF auth this] auth absent show ?thesis
    by simp
qed

section \<open>Summary\<close>

lemma summary_row_matches:
  "summary_row c s now acc ir = (if matches c s now ir then add_row acc ir else acc)"
  by (simp add: summary_row_def matches_def add_row_def Let_def split: option.splits)

lemma summary_fold_matches:
  "foldl (summary_row c s now) acc xs = foldl add_row acc (filter (matches c s now) xs)"
  by (induction xs arbitrary: acc) (simp_all add: summary_row_matches)

lemma summarize_matched:
  "summarize c period now rows = foldl add_row no_totals (matched c period now rows)"
  by (simp add: summarize_def matched_def summary_fold_matches)

lemma add_rows_sums:
  "totalCalories (foldl add_row acc xs) = totalCalories acc + (\<Sum>ir\<leftarrow>xs. macro (snd ir) 3)"
  "totalProtein (foldl add_row acc xs) = totalProtein acc + (\<Sum>ir\<leftarrow>xs. macro (snd ir) 4)"
  "totalCarbs (foldl add_row acc xs) = totalCarbs acc + (\<Sum>ir\<leftarrow>xs. macro (snd ir) 5)"
  "totalFat (foldl add_row acc xs) = totalFat acc + (\<Sum>ir\<leftarrow>xs. macro (snd ir) 6)"
  "entryCount (foldl add_row acc xs) = entryCount acc + length xs"
  by (induction xs arbitrary: acc) (simp_all add: add_row_def)

lemma daily_add_keys:
  "map fst (daily_add dt k m)
     = (if k \<in> set Object_prototype_keys \<or> k \<in> fst ` set dt then map fst dt else map fst dt @ [k])"
proof (cases "map_of dt k")
  case None
  then have "k \<notin> fst ` set dt"
    by (simp add: map_of_eq_None_iff)
  with None show ?thesis
    by (simp add: daily_add_def)
next
  case (Some old)
  then have "k \<in> fst ` set dt"
    using map_of_eq_None_iff [of dt k] by auto
  moreover have "map fst (map (\<lambda>kv. if fst kv = k then (k, f kv) else kv) dt) = map fst dt" for f
    by (induction dt) auto
  ultimately show ?thesis
    using Some by (simp add: daily_add_def)
qed

lemma add_rows_keys:
  assumes "distinct (map fst (dailyTotals acc))"
  shows "distinct (map fst (dailyTotals (foldl add_row acc xs)))
       \<and> fst ` set (dailyTotals (foldl add_row acc xs))
           = fst ` set (dailyTotals acc) \<union> (date_keys xs - set Object_prototype_keys)"
  using assms
proof (induction xs arbitrary: acc)
  case Nil
  then show ?case by (simp add: date_keys_def)
next
  case (Cons ir xs)
  let ?acc = "add_row acc ir"
  have keys: "map fst (dailyTotals ?acc)
      = (if snd ir ! 0 \<in> set Object_prototype_keys \<or> snd ir ! 0 \<in> fst ` set (dailyTotals acc)
         then map fst (dailyTotals acc) else map fst (dailyTotals acc) @ [snd ir ! 0])"
    by (simp add: add_row_def daily_add_keys)
  then have d: "distinct (map fst (dailyTotals ?acc))"
    using Cons.prems by auto
  have s: "fst ` set (dailyTotals ?acc)
      = fst ` set (dailyTotals acc) \<union> ({snd ir ! 0} - set Object_prototype_keys)"
  proof -
    have "fst ` set (dailyTotals ?acc) = set (map fst (dailyTotals ?acc))" by simp
    also have "\<dots> = fst ` set (dailyTotals acc) \<union> ({snd ir ! 0} - set Object_prototype_keys)"
      unfolding keys by auto
    finally show ?thesis .
  qed
  from Cons.IH [OF d] s show ?case
    by (auto simp: date_keys_def)
qed

lemma matched_parses:
  "ir \<in> set (matched c period now rows) \<Longrightarrow> \<exists>t. Date_parse c (snd ir ! 0) = Some t"
  by (auto simp: matched_def matches_def row_date_def cell_def split: option.splits if_splits)

lemma matched_keys_own:
  assumes "\<forall>k\<in>set Object_prototype_keys. Date_parse c k = None"
  shows "date_keys (matched c period now rows) - set Object_prototype_keys
           = date_keys (matched c period now rows)"
  using assms matched_parses [of _ c period now rows]
  by (fastforce simp: date_keys_def)

lemma summarize_keys:
  assumes "\<forall>k\<in>set Object_prototype_keys. Date_parse c k = None"
  shows "distinct (map fst (dailyTotals (summarize c period now rows)))"
    and "fst ` set (dailyTotals (summarize c period now rows)) = date_keys (matched c period now rows)"
  using add_rows_keys [of no_totals "matched c period now rows"] matched_keys_own [OF assms]
  by (simp_all add: summarize_matched no_totals_def)

lemma summarize_days:
  assumes "\<forall>k\<in>set Object_prototype_keys. Date_parse c k = None"
  shows "length (dailyTotals (summarize c period now rows)) = card (date_keys (matched c period now rows))"
proof -
  have "length (dailyTotals (summarize c period now rows))
          = length (map fst (dailyTotals (summarize c period now rows)))"
    by simp
  also have "\<dots> = card (set (map fst (dailyTotals (summarize c period now rows))))"
    using summarize_keys(1) [OF assms] by (simp only: distinct_card)
  also have "\<dots> = card (date_keys (matched c period now rows))"
    using summarize_keys(2) [OF assms] by simp
  finally show ?thesis .
qed

lemma date_keys_empty: "date_keys M = {} \<longleftrightarrow> M = []"
  by (simp add: date_keys_def)

lemma Math_round_ratio:
  "0 < d \<Longrightarrow> Math_round (of_int t / of_nat d) = (2 * t + int d) div (2 * int d)"
proof -
  assume d: "0 < d"
  have "(of_int t :: rat) / of_nat d + 1 / 2 = of_int (2 * t + int d) / of_int (2 * int d)"
    using d by (simp add: field_simps)
  then show ?thesis
    unfolding Math_round_def by (simp only: floor_divide_of_int_eq)
qed


lemma get_summary_ok:
  assumes "\<not> not_authenticated c" and "failure_at c 0 = None"
    and "nowInTz c (js_or (obj_get req_query ''timezone'') (JStr ''UTC'')) = Inr now"
  shows "get_summary c req_query r
           = (res_json (summary_json (obj_get req_query ''period'')
                          (summarize c (obj_get req_query ''period'') now (select_cols 0 6 (Sheet1 r)))),
              [Sheets (ValuesGet (Cols ''Sheet1'' 0 6))], r)"
  using assms
  by (simp add: get_summary_def Let_def sheets_request_def remote_step_def grid_of_def
        values_of_def data_values_def summarize_def)

lemma summary_json_fields:
  "opt_prop (json_elem (summary_json period t)) ''totalCalories'' = JNum (of_int (totalCalories t))"
  "opt_prop (json_elem (summary_json period t)) ''totalProtein'' = JNum (of_int (totalProtein t))"
  "opt_prop (json_elem (summary_json period t)) ''totalCarbs'' = JNum (of_int (totalCarbs t))"
  "opt_prop (json_elem (summary_json period t)) ''totalFat'' = JNum (of_int (totalFat t))"
  "opt_prop (json_elem (summary_json period t)) ''entryCount'' = JNum (of_nat (entryCount t))"
  "opt_prop (json_elem (summary_json period t)) ''daysCount'' = JNum (of_nat (daysCount t))"
  "opt_prop (json_elem (summary_json period t)) ''avgCalories''
     = JNum (of_int (average (totalCalories t) (daysCount t)))"
  "opt_prop (json_elem (summary_json period t)) ''avgProtein''
     = JNum (of_int (average (totalProtein t) (daysCount t)))"
  "opt_prop (json_elem (summary_json period t)) ''avgCarbs''
     = JNum (of_int (average (totalCarbs t) (daysCount t)))"
  "opt_prop (json_elem (summary_json period t)) ''avgFat''
     = JNum (of_int (average (totalFat t) (daysCount t)))"
  by (simp_all add: summary_json_def opt_prop_def obj_get_def)

lemma summary_response:
  assumes "\<not> not_authenticated c" and "failure_at c 0 = None"
    and "nowInTz c (js_or (obj_get req_query ''timezone'') (JStr ''UTC'')) = Inr now"
    and "\<forall>k\<in>set Object_prototype_keys. Date_parse c k = None"
    and "M = matched c (obj_get req_query ''period'') now (select_cols 0 6 (Sheet1 r))"
  shows "\<exists>t. get_summary c req_query r
               = (\<lparr>status = 200, body = json_elem (summary_json (obj_get req_query ''period'') t)\<rparr>,
                  [Sheets (ValuesGet (Cols ''Sheet1'' 0 6))], r)
           \<and> entryCount t = length M
           \<and> daysCount t = (if M = [] then 1 else card (date_keys M))
           \<and> totalCalories t = (\<Sum>ir\<leftarrow>M. macro (snd ir) 3)
           \<and> totalProtein t = (\<Sum>ir\<leftarrow>M. macro (snd ir) 4)
           \<and> totalCarbs t = (\<Sum>ir\<leftarrow>M. macro (snd ir) 5)
           \<and> totalFat t = (\<Sum>ir\<leftarrow>M. macro (snd ir) 6)"
proof -
  let ?t = "summarize c (obj_get req_query ''period'') now (select_cols 0 6 (Sheet1 r))"
  have out: "get_summary c req_query r
               = (\<lparr>status = 200, body = json_elem (summary_json (obj_get req_query ''period'') ?t)\<rparr>,
                  [Sheets (ValuesGet (Cols ''Sheet1'' 0 6))], r)"
    using get_summary_ok [OF assms(1,2,3)] by (simp add: res_json_def res_status_json_def)
  have t: "?t = foldl add_row no_totals M"
    unfolding assms(5) by (rule summarize_matched)
  have len: "length (dailyTotals ?t) = card (date_keys M)"
    unfolding assms(5) using assms(4) by (rule summarize_days)
  have days: "daysCount ?t = (if M = [] then 1 else card (date_keys M))"
  proof (cases "M = []")
    case True
    then show ?thesis
      using len by (simp add: daysCount_def date_keys_def)
  next
    case False
    then have "date_keys M \<noteq> {}"
      by (simp add: date_keys_empty)
    moreover have "finite (date_keys M)"
      by (simp add: date_keys_def)
    ultimately have "card (date_keys M) \<noteq> 0"
      by simp
    with False len show ?thesis
      by (simp add: daysCount_def)
  qed
  have sums: "entryCount ?t = length M"
    "totalCalories ?t = (\<Sum>ir\<leftarrow>M. macro (snd ir) 3)"
    "totalProtein ?t = (\<Sum>ir\<leftarrow>M. macro (snd ir) 4)"
    "totalCarbs ?t = (\<Sum>ir\<leftarrow>M. macro (snd ir) 5)"
    "totalFat ?t = (\<Sum>ir\<leftarrow>M. macro (snd ir) 6)"
    unfolding t by (simp_all add: add_rows_sums no_totals_def)
  from out days sums show ?thesis
    by blast
qed

text \<open>
  C5. When \<open>GET /summary\<close> has credentials, its read does not fail and the host
  knows the zone, the answer is 200 and in its body \<open>daysCount\<close> is the number of
  distinct date texts among the matched rows, and 1 when no row matches, each total is
  the sum of that macro over the matched rows, and each average is \<open>Math.round\<close> of the
  total over \<open>daysCount\<close>. The host's date parser is taken not to accept the name of a
  property of \<open>Object.prototype\<close> as a date, and the sums to be in the range where the
  doubles of the code are exact.
\<close>

theorem summary_averages:
  assumes "\<not> not_authenticated c" and "failure_at c 0 = None"
    and "nowInTz c (js_or (obj_get req_query ''timezone'') (JStr ''UTC'')) = Inr now"
    and "\<forall>k\<in>set Object_prototype_keys. Date_parse c k = None"
    and "M = matched c (obj_get req_query ''period'') now (select_cols 0 6 (Sheet1 r))"
    and "exact_sums M"
    and "D = (if M = [] then 1 else card (date_keys M))"
  shows "status (fst (get_summary c req_query r)) = 200
       \<and> opt_prop (body (fst (get_summary c req_query r))) ''daysCount'' = JNum (of_nat D)
       \<and> opt_prop (body (fst (get_summary c req_query r))) ''totalCalories''
           = JNum (of_int (\<Sum>ir\<leftarrow>M. macro (snd ir) 3))
       \<and> opt_prop (body (fst (get_summary c req_query r))) ''totalProtein''
           = JNum (of_int (\<Sum>ir\<leftarrow>M. macro (snd ir) 4))
       \<and> opt_prop (body (fst (get_summary c req_query r))) ''totalCarbs''
           = JNum (of_int (\<Sum>ir\<leftarrow>M. macro (snd ir) 5))
       \<and> opt_prop (body (fst (get_summary c req_query r))) ''totalFat''
           = JNum (of_int (\<Sum>ir\<leftarrow>M. macro (snd ir) 6))
       \<and> opt_prop (body (fst (get_summary c req_query r))) ''avgCalories''
           = JNum (of_int (Math_round (of_int (\<Sum>ir\<leftarrow>M. macro (snd ir) 3) / of_nat D)))
       \<and> opt_prop (body (fst (get_summary c req_query r))) ''avgProtein''
           = JNum (of_int (Math_round (of_int (\<Sum>ir\<leftarrow>M. macro (snd ir) 4) / of_nat D)))
       \<and> opt_prop (body (fst (get_summary c req_query r))) ''avgCarbs''
           = JNum (of_int (Math_round (of_int (\<Sum>ir\<leftarrow>M. macro (snd ir) 5) / of_nat D)))
       \<and> opt_prop (body (fst (get_summary c req_query r))) ''avgFat''
           = JNum (of_int (Math_round (of_int (\<Sum>ir\<leftarrow>M. macro (snd ir) 6) / of_nat D)))
       \<and> Math_round (of_int (\<Sum>ir\<leftarrow>M. macro (snd ir) 3) / of_nat D)
           = (2 * (\<Sum>ir\<leftarrow>M. macro (snd ir) 3) + int D) div (2 * int D)"
proof -
  obtain t where out: "get_summary c req_query r
               = (\<lparr>status = 200, body = json_elem (summary_json (obj_get req_query ''period'') t)\<rparr>,
                  [Sheets (ValuesGet (Cols ''Sheet1'' 0 6))], r)"
    and days: "daysCount t = D"
    and sums: "totalCalories t = (\<Sum>ir\<leftarrow>M. macro (snd ir) 3)"
      "totalProtein t = (\<Sum>ir\<leftarrow>M. macro (snd ir) 4)"
      "totalCarbs t = (\<Sum>ir\<leftarrow>M. macro (snd ir) 5)"
      "totalFat t = (\<Sum>ir\<leftarrow>M. macro (snd ir) 6)"
    using summary_response [OF assms(1,2,3,4,5)] assms(7) by auto
  have pos: "0 < D"
    unfolding assms(7) by (simp add: card_gt_0_iff date_keys_def)
  show ?thesis
    unfolding out
    using Math_round_ratio [OF pos, of "\<Sum>ir\<leftarrow>M. macro (snd ir) 3"]
    by (simp add: summary_json_fields average_def days sums)
qed

lemma example_parser_rejects_prototype_keys:
  "\<forall>k\<in>set Object_prototype_keys. Date_parse example_server k = None"
  by (simp add: Object_prototype_keys_def example_server_def example_parse_def example_dates_def)

lemma example_week:
  "matched example_server (JStr ''weekly'') (Some example_now) (select_cols 0 6 (Sheet1 example_ledger))
     = [(1, [''3/9/2024'', ''08:00 AM'', ''oats'', ''300'', ''10'', ''50'', ''5'']),
        (2, [''3/10/2024'', ''09:00 AM'', ''eggs'', ''150'', ''12'', ''1'', ''10'']),
        (3, [''3/10/2024'', ''01:00 PM'', ''rice'', ''abc'', ''4''])]"
  by code_simp

lemma example_week_sums:
  "exact_sums [(1, [''3/9/2024'', ''08:00 AM'', ''oats'', ''300'', ''10'', ''50'', ''5'']),
        (2, [''3/10/2024'', ''09:00 AM'', ''eggs'', ''150'', ''12'', ''1'', ''10'']),
        (3, [''3/10/2024'', ''01:00 PM'', ''rice'', ''abc'', ''4''])]"
  "(\<Sum>ir\<leftarrow>[(1::nat, [''3/9/2024'', ''08:00 AM'', ''oats'', ''300'', ''10'', ''50'', ''5'']),
        (2, [''3/10/2024'', ''09:00 AM'', ''eggs'', ''150'', ''12'', ''1'', ''10'']),
        (3, [''3/10/2024'', ''01:00 PM'', ''rice'', ''abc'', ''4''])]. macro (snd ir) 3) = 450"
  by code_simp+

lemma example_server_signed_in:
  "\<not> not_authenticated example_server"
  by (simp add: not_authenticated_def configured_def example_server_def opt_prop_def obj_get_def)

lemma example_server_no_failure:
  "failure_at example_server n = None"
  by (simp add: failure_at_def example_server_def)

lemma example_clock:
  "nowInTz example_server (js_or (obj_get req_query ''timezone'') (JStr ''UTC'')) = Inr (Some example_now)"
  by (simp add: example_server_def)

theorem summary_averages_witness:
  "list_all (\<lambda>k. Date_parse example_server k = None) Object_prototype_keys
   \<and> \<not> not_authenticated example_server
   \<and> status (fst (get_summary example_server [(''period'', JStr ''weekly'')] example_ledger)) = 200
   \<and> opt_prop (body (fst (get_summary example_server [(''period'', JStr ''weekly'')] example_ledger)))
        ''daysCount'' = JNum 2
   \<and> opt_prop (body (fst (get_summary example_server [(''period'', JStr ''weekly'')] example_ledger)))
        ''totalCalories'' = JNum 450
   \<and> opt_prop (body (fst (get_summary example_server [(''period'', JStr ''weekly'')] example_ledger)))
        ''avgCalories'' = JNum 225"
proof -
  let ?M = "[(1::nat, [''3/9/2024'', ''08:00 AM'', ''oats'', ''300'', ''10'', ''50'', ''5'']),
        (2, [''3/10/2024'', ''09:00 AM'', ''eggs'', ''150'', ''12'', ''1'', ''10'']),
        (3, [''3/10/2024'', ''01:00 PM'', ''rice'', ''abc'', ''4''])]"
  let ?body = "body (fst (get_summary example_server [(''period'', JStr ''weekly'')] example_ledger))"
  have M: "?M = matched example_server (obj_get [(''period'', JStr ''weekly'')] ''period'')
                  (Some example_now) (select_cols 0 6 (Sheet1 example_ledger))"
    by (simp add: obj_get_def example_week)
  have D: "(2::nat) = (if ?M = [] then 1 else card (date_keys ?M))"
    by (simp add: date_keys_def)
  note t = summary_averages [OF example_server_signed_in example_server_no_failure example_clock
             example_parser_rejects_prototype_keys M example_week_sums(1) D]
  from t have "opt_prop ?body ''avgCalories''
      = JNum (of_int (Math_round (of_int (\<Sum>ir\<leftarrow>?M. macro (snd ir) 3) / of_nat 2)))"
    by blast
  moreover from t have "Math_round (of_int (\<Sum>ir\<leftarrow>?M. macro (snd ir) 3) / of_nat 2)
      = (2 * (\<Sum>ir\<leftarrow>?M. macro (snd ir) 3) + int 2) div (2 * int 2)"
    by blast
  ultimately have avg: "opt_prop ?body ''avgCalories'' = JNum 225"
    unfolding example_week_sums(2) by simp
  from t have "opt_prop ?body ''totalCalories'' = JNum (of_int (\<Sum>ir\<leftarrow>?M. macro (snd ir) 3))"
    by blast
  then have tot: "opt_prop ?body ''totalCalories'' = JNum 450"
    unfolding example_week_sums(2) by simp
  from t have st: "status (fst (get_summary example_server [(''period'', JStr ''weekly'')] example_ledger)) = 200"
    by blast
  from t have "opt_prop ?body ''daysCount'' = JNum (of_nat 2)"
    by blast
  then have days: "opt_prop ?body ''daysCount'' = JNum 2"
    by simp
  from avg tot st days show ?thesis
    using example_parser_rejects_prototype_keys example_server_signed_in
    by (simp add: list_all_iff)
qed

subsection \<open>The window\<close>

text \<open>
  What holds of the window for every host: the matched rows are those, the header
  aside, whose date cell parses to a time from \<open>startDate\<close> to \<open>nowInTz\<close>; \<open>startDate\<close>
  is \<open>new Date\<close> of now's year, month and day for \<open>daily\<close> and for any other text than
  the three periods, of the day less 7 for \<open>weekly\<close>, which is exactly 7 days of local
  time earlier, and of the month less 1 for \<open>monthly\<close>, which is that day number counted
  from the first day of the previous month.
\<close>

lemma matched_rows:
  "(i, row) \<in> set (matched c period now rows)
     \<longleftrightarrow> i < length rows \<and> row = rows ! i \<and> \<not> (i = 0 \<and> header_cell row)
         \<and> (\<exists>t s n. cell row 0 \<noteq> None \<and> Date_parse c (row ! 0) = Some t
               \<and> window_start c period now = Some s \<and> now = Some n
               \<and> s \<le> t \<and> t \<le> time_value n)"
  by (auto simp: matched_def matches_def in_set_enumerate_eq row_date_def cell_def in_window_def
      split: option.splits if_splits)

lemma window_start_periods:
  "window_start c (JStr ''daily'') (Some d)
     = Some (new_Date c (full_year d) (month0 d) (day_of_month d))"
  "window_start c (JStr ''weekly'') (Some d)
     = Some (new_Date c (full_year d) (month0 d) (day_of_month d - 7))"
  "window_start c (JStr ''monthly'') (Some d)
     = Some (new_Date c (full_year d) (month0 d - 1) (day_of_month d))"
  "period \<noteq> JStr ''daily'' \<Longrightarrow> period \<noteq> JStr ''weekly'' \<Longrightarrow> period \<noteq> JStr ''monthly'' \<Longrightarrow>
     window_start c period (Some d) = window_start c (JStr ''daily'') (Some d)"
  by (simp_all add: window_start_def)

lemma MakeDay_days_earlier: "MakeDay y m (d - k) = MakeDay y m d - k"
  by (simp add: MakeDay_def Let_def)

lemma MakeDay_previous_month:
  "1 \<le> m \<Longrightarrow> m \<le> 11 \<Longrightarrow> MakeDay y (m - 1) d = DayFromYear y + month_start y (m - 1) + d - 1"
  "MakeDay y (0 - 1) d = DayFromYear (y - 1) + month_start (y - 1) 11 + d - 1"
  by (simp_all add: MakeDay_def Let_def)

text \<open>
  C6 has the monthly window start at midnight one calendar month before now's date.
  On 31 March 2024 at 15:00 the handler starts it with \<open>new Date(2024, 1, 31)\<close>, the
  31st day counted from 1 February, which is 2 March: a row dated 1 March 2024, less
  than a calendar month before now, is not matched and the summary counts no entry,
  though its date lies between 29 February and now.
\<close>

theorem monthly_window_month_end:
  "window_start example_server (JStr ''monthly'')
      (Some \<lparr>time_value = local_midnight 2024 2 31 + 54000000,
             full_year = 2024, month0 = 2, day_of_month = 31\<rparr>)
     = Some (local_midnight 2024 2 2)
   \<and> matched example_server (JStr ''monthly'')
       (Some \<lparr>time_value = local_midnight 2024 2 31 + 54000000,
              full_year = 2024, month0 = 2, day_of_month = 31\<rparr>)
       [[''Date'', ''Time'', ''Food'', ''Calories'', ''Protein'', ''Carbs'', ''Fat''],
        [''3/1/2024'', ''08:00 AM'', ''oats'', ''300'', ''10'', ''50'', ''5'']]
     = []
   \<and> entryCount (summarize example_server (JStr ''monthly'')
       (Some \<lparr>time_value = local_midnight 2024 2 31 + 54000000,
              full_year = 2024, month0 = 2, day_of_month = 31\<rparr>)
       [[''Date'', ''Time'', ''Food'', ''Calories'', ''Protein'', ''Carbs'', ''Fat''],
        [''3/1/2024'', ''08:00 AM'', ''oats'', ''300'', ''10'', ''50'', ''5'']])
     = 0
   \<and> local_midnight 2024 1 29 \<le> the (Date_parse example_server ''3/1/2024'')
   \<and> the (Date_parse example_server ''3/1/2024'') \<le> local_midnight 2024 2 31 + 54000000"
  by code_simp

section \<open>Cells of the ledger\<close>

lemma cell_text_set_cell:
  "cell_text (set_cell g i j s) i' j' = (if i' = i \<and> j' = j then s else cell_text g i' j')"
  by (auto simp: cell_text_def set_cell_def Let_def nth_append nth_list_update nth_Cons')

lemma cell_text_write_cell:
  "cell_text (write_cell d i g (j, v)) i' j'
     = (if i' = i \<and> j' = j \<and> json_elem v \<noteq> JNull then d (json_elem v) else cell_text g i' j')"
  by (cases "json_elem v") (simp_all add: write_cell_def cell_text_set_cell)

lemma upt_3_4: "[3 ..< 3 + length [a, b, c, d]] = [3, 4, 5, 6]"
  by (simp add: upt_rec)

lemma write_macros_row:
  "write_row d 3 g (i, [v3, v4, v5, v6])
     = write_cell d i (write_cell d i (write_cell d i (write_cell d i g (3, v3)) (4, v4)) (5, v5)) (6, v6)"
  by (simp add: write_row_def upt_3_4 del: upt_Suc)

lemma write_macros:
  "write_block d i 3 [[v3, v4, v5, v6]] g
     = write_cell d i (write_cell d i (write_cell d i (write_cell d i g (3, v3)) (4, v4)) (5, v5)) (6, v6)"
  by (simp add: write_block_def write_macros_row)

lemma cell_text_write_macros:
  "cell_text (write_block d i 3 [[v3, v4, v5, v6]] g) i' j'
     = (if i' = i \<and> j' = 3 \<and> json_elem v3 \<noteq> JNull then d (json_elem v3)
        else if i' = i \<and> j' = 4 \<and> json_elem v4 \<noteq> JNull then d (json_elem v4)
        else if i' = i \<and> j' = 5 \<and> json_elem v5 \<noteq> JNull then d (json_elem v5)
        else if i' = i \<and> j' = 6 \<and> json_elem v6 \<noteq> JNull then d (json_elem v6)
        else cell_text g i' j')"
  by (simp add: write_macros cell_text_write_cell)

lemma update_macros_step:
  assumes "0 \<le> k"
  shows "remote_step d (ValuesUpdate (Cells ''Sheet1'' 3 (Some (k + 2)) 6 (Some (k + 2)))
                          [[v3, v4, v5, v6]]) r
           = Inr (Empty, r\<lparr>Sheet1 := write_block d (nat (k + 1)) 3 [[v3, v4, v5, v6]] (Sheet1 r)\<rparr>)"
  using assms by (simp add: remote_step_def grid_of_def put_grid_def add.commute)

lemma put_entry_effect:
  assumes "\<not> not_authenticated c" and "parseInt (Some rowIndex) = Some k" and "0 \<le> k"
  shows "put_entry c rowIndex req_body r
           = (case failure_at c 0 of
                Some m \<Rightarrow>
                  (res_error m,
                   [Sheets (ValuesUpdate (Cells ''Sheet1'' 3 (Some (k + 2)) 6 (Some (k + 2)))
                      [[obj_get req_body ''calories'', obj_get req_body ''protein'',
                        obj_get req_body ''carbs'', obj_get req_body ''fat'']])],
                   r)
              | None \<Rightarrow>
                  (res_json (JObj [(''success'', JBool True)]),
                   [Sheets (ValuesUpdate (Cells ''Sheet1'' 3 (Some (k + 2)) 6 (Some (k + 2)))
                      [[obj_get req_body ''calories'', obj_get req_body ''protein'',
                        obj_get req_body ''carbs'', obj_get req_body ''fat'']])],
                   r\<lparr>Sheet1 := write_block (display c) (nat (k + 1)) 3
                                   [[obj_get req_body ''calories'', obj_get req_body ''protein'',
                                     obj_get req_body ''carbs'', obj_get req_body ''fat'']]
                                   (Sheet1 r)\<rparr>))"
  using assms
  by (simp add: put_entry_def Let_def sheetRowIndex_def sheets_request_def update_macros_step
      split: option.splits)


text \<open>
  C8. An update with credentials, for the route parameter that reads as the index
  \<open>k\<close>, makes one call: the four macro values to \<open>Sheet1!D(k+2):G(k+2)\<close>. After it
  the Settings sheet is as before, and so is every cell of the ledger outside columns D
  to G (3 to 6, from 0) of physical row \<open>k + 2\<close> (row \<open>k + 1\<close>, from 0): columns A to C
  of that row, and all other rows. When the call does not fail the answer is 200 and
  each of the four cells shows the value sent for it (a value sent as \<open>null\<close> leaves
  its cell alone).
\<close>

theorem update_writes_macro_columns:
  assumes "\<not> not_authenticated c"
    and "parseInt (Some rowIndex) = Some k"
    and "0 \<le> k"
  shows "fst (snd (put_entry c rowIndex req_body r))
           = [Sheets (ValuesUpdate (Cells ''Sheet1'' 3 (Some (k + 2)) 6 (Some (k + 2)))
                [[obj_get req_body ''calories'', obj_get req_body ''protein'',
                  obj_get req_body ''carbs'', obj_get req_body ''fat'']])]
       \<and> Settings (snd (snd (put_entry c rowIndex req_body r))) = Settings r
       \<and> (\<forall>i j. \<not> (i = nat (k + 1) \<and> 3 \<le> j \<and> j \<le> 6) \<longrightarrow>
             cell_text (Sheet1 (snd (snd (put_entry c rowIndex req_body r)))) i j
               = cell_text (Sheet1 r) i j)
       \<and> (failure_at c 0 = None \<longrightarrow>
             status (fst (put_entry c rowIndex req_body r)) = 200
             \<and> (json_elem (obj_get req_body ''calories'') \<noteq> JNull \<longrightarrow>
                  cell_text (Sheet1 (snd (snd (put_entry c rowIndex req_body r)))) (nat (k + 1)) 3
                    = display c (json_elem (obj_get req_body ''calories'')))
             \<and> (json_elem (obj_get req_body ''protein'') \<noteq> JNull \<longrightarrow>
                  cell_text (Sheet1 (snd (snd (put_entry c rowIndex req_body r)))) (nat (k + 1)) 4
                    = display c (json_elem (obj_get req_body ''protein'')))
             \<and> (json_elem (obj_get req_body ''carbs'') \<noteq> JNull \<longrightarrow>
                  cell_text (Sheet1 (snd (snd (put_entry c rowIndex req_body r)))) (nat (k + 1)) 5
                    = display c (json_elem (obj_get req_body ''carbs'')))
             \<and> (json_elem (obj_get req_body ''fat'') \<noteq> JNull \<longrightarrow>
                  cell_text (Sheet1 (snd (snd (put_entry c rowIndex req_body r)))) (nat (k + 1)) 6
                    = display c (json_elem (obj_get req_body ''fat''))))"
proof (cases "failure_at c 0")
  case (Some m)
  then show ?thesis
    using put_entry_effect [OF assms, of req_body r] by simp
next
  case None
  then show ?thesis
    using put_entry_effect [OF assms, of req_body r]
    by (simp add: cell_text_write_macros res_json_def res_status_json_def)
qed

lemma example_index_1:
  "parseInt (Some ''1'') = Some 1"
  by code_simp

theorem update_writes_macro_columns_witness:
  "\<not> not_authenticated example_server
   \<and> parseInt (Some ''1'') = Some 1
   \<and> fst (snd (put_entry example_server ''1'' [(''calories'', JNum 250), (''fat'', JStr ''7'')] example_ledger))
       = [Sheets (ValuesUpdate (Cells ''Sheet1'' 3 (Some 3) 6 (Some 3))
            [[JNum 250, JUndef, JUndef, JStr ''7'']])]
   \<and> cell_text (Sheet1 (snd (snd (put_entry example_server ''1''
        [(''calories'', JNum 250), (''fat'', JStr ''7'')] example_ledger)))) 2 3 = ''250''
   \<and> cell_text (Sheet1 (snd (snd (put_entry example_server ''1''
        [(''calories'', JNum 250), (''fat'', JStr ''7'')] example_ledger)))) 2 2 = ''eggs''
   \<and> cell_text (Sheet1 (snd (snd (put_entry example_server ''1''
        [(''calories'', JNum 250), (''fat'', JStr ''7'')] example_ledger)))) 1 3 = ''300''"
proof -
  have pos: "(0::int) \<le> 1" by simp
  note t = update_writes_macro_columns
             [OF example_server_signed_in example_index_1 pos,
              of "[(''calories'', JNum 250), (''fat'', JStr ''7'')]" example_ledger]
  have shown: "display example_server (JNum 250) = ''250''"
    by (simp add: example_server_def example_display_def example_numerals_def)
  have before: "cell_text (Sheet1 example_ledger) 2 2 = ''eggs''"
    "cell_text (Sheet1 example_ledger) 1 3 = ''300''"
    by (simp_all add: cell_text_def example_ledger_def)
  have "cell_text (Sheet1 (snd (snd (put_entry example_server ''1''
        [(''calories'', JNum 250), (''fat'', JStr ''7'')] example_ledger)))) 2 3 = ''250''"
    using t example_server_no_failure [of 0] shown by (simp add: obj_get_def)
  moreover have "cell_text (Sheet1 (snd (snd (put_entry example_server ''1''
        [(''calories'', JNum 250), (''fat'', JStr ''7'')] example_ledger)))) 2 2 = ''eggs''"
    using t before(1) by simp
  moreover have "cell_text (Sheet1 (snd (snd (put_entry example_server ''1''
        [(''calories'', JNum 250), (''fat'', JStr ''7'')] example_ledger)))) 1 3 = ''300''"
    using t before(2) by simp
  moreover have "fst (snd (put_entry example_server ''1'' [(''calories'', JNum 250), (''fat'', JStr ''7'')] example_ledger))
       = [Sheets (ValuesUpdate (Cells ''Sheet1'' 3 (Some 3) 6 (Some 3))
            [[JNum 250, JUndef, JUndef, JStr ''7'']])]"
    using t by (simp add: obj_get_def)
  ultimately show ?thesis
    using example_server_signed_in example_index_1 by simp
qed

section \<open>Deleting and listing\<close>

lemma cell_take_7: "i < 7 \<Longrightarrow> cell (take 7 row) i = cell row i"
  by (simp add: cell_def)

lemma header_cell_take_7: "header_cell (take 7 row) = header_cell row"
  by (simp add: header_cell_def cell_take_7)

lemma hasHeader_select: "hasHeader (select_cols 0 6 g) = hasHeader g"
  by (cases g) (simp_all add: hasHeader_def select_cols_def header_cell_take_7)

lemma entry_of_take_7: "entry_of h (i, take 7 row) = entry_of h (i, row)"
  by (simp add: entry_of_def cell_val_def macro_def cell_take_7)

lemma enumerate_map: "enumerate n (map f xs) = map (\<lambda>ir. (fst ir, f (snd ir))) (enumerate n xs)"
  by (induction xs arbitrary: n) simp_all

lemma list_entries_select: "list_entries (select_cols 0 6 g) date = list_entries g date"
proof -
  have sel: "select_cols 0 6 g = map (take 7) g"
    by (simp add: select_cols_def)
  have keep: "filter (\<lambda>ir. \<not> (fst ir = 0 \<and> h) \<and> cell_val (snd ir) 0 = date)
                (map (\<lambda>ir. (fst ir, take 7 (snd ir))) xs)
              = map (\<lambda>ir. (fst ir, take 7 (snd ir)))
                  (filter (\<lambda>ir. \<not> (fst ir = 0 \<and> h) \<and> cell_val (snd ir) 0 = date) xs)"
    for h and xs :: "(nat \<times> string list) list"
    by (induction xs) (simp_all add: cell_val_def cell_take_7)
  have ent: "map (entry_of h) (map (\<lambda>ir. (fst ir, take 7 (snd ir))) xs) = map (entry_of h) xs"
    for h and xs :: "(nat \<times> string list) list"
    by (induction xs) (simp_all add: entry_of_take_7)
  show ?thesis
    unfolding list_entries_def hasHeader_select
    by (simp only: sel enumerate_map keep ent)
qed

lemma list_entries_keeps:
  "list_entries rows date
     = map (entry_of (hasHeader rows)) (filter (keeps (hasHeader rows) date) (enumerate 0 rows))"
proof -
  have "keeps h date = (\<lambda>ir. \<not> (fst ir = 0 \<and> h) \<and> cell_val (snd ir) 0 = date)" for h
    by (auto simp: keeps_def fun_eq_iff)
  then show ?thesis
    by (simp only: list_entries_def)
qed

lemma hasHeader_append: "a \<noteq> [] \<Longrightarrow> hasHeader (a @ b) = hasHeader a"
  by (cases a) (simp_all add: hasHeader_def)

lemma entries_before:
  assumes "\<forall>ir\<in>set xs. int (fst ir) - 1 < k"
  shows "map (shift_entry k) (filter (\<lambda>e. e_rowIndex e \<noteq> k) (map (entry_of True) xs))
           = map (entry_of True) xs"
  using assms by (induction xs) (auto simp: entry_of_def shift_entry_def)

lemma entries_after:
  assumes "\<forall>ir\<in>set xs. k < int (fst ir) \<and> 0 < fst ir"
  shows "map (shift_entry k)
           (filter (\<lambda>e. e_rowIndex e \<noteq> k)
              (map (entry_of True) (filter (keeps True date) (map (apfst Suc) xs))))
           = map (entry_of True) (filter (keeps True date) xs)"
  using assms by (induction xs) (auto simp: entry_of_def shift_entry_def keeps_def)

lemma entries_deleted:
  "filter (\<lambda>e. e_rowIndex e \<noteq> int n - 1) (map (entry_of True) (filter (keeps True date) [(n, x)])) = []"
  by (simp add: entry_of_def)

lemma list_after_delete:
  assumes "hasHeader a" and "a \<noteq> []"
  shows "list_entries (a @ b) date
           = map (shift_entry (int (length a) - 1))
               (filter (\<lambda>e. e_rowIndex e \<noteq> int (length a) - 1) (list_entries (a @ x # b) date))"
proof -
  let ?k = "int (length a) - 1"
  let ?A = "filter (keeps True date) (enumerate 0 a)"
  have h1: "hasHeader (a @ b)" and h2: "hasHeader (a @ x # b)"
    using assms by (simp_all add: hasHeader_append)
  have before: "\<forall>ir\<in>set ?A. int (fst ir) - 1 < ?k"
    by (auto simp: in_set_enumerate_eq)
  have after: "\<forall>ir\<in>set (enumerate (length a) b). ?k < int (fst ir) \<and> 0 < fst ir"
    using assms(2) by (cases a) (auto simp: in_set_enumerate_eq)
  have "list_entries (a @ x # b) date
          = map (entry_of True) ?A
            @ map (entry_of True) (filter (keeps True date) [(length a, x)])
            @ map (entry_of True) (filter (keeps True date) (map (apfst Suc) (enumerate (length a) b)))"
    using h2 by (simp add: list_entries_keeps enumerate_append_eq enumerate_Suc_eq)
  then have "map (shift_entry ?k) (filter (\<lambda>e. e_rowIndex e \<noteq> ?k) (list_entries (a @ x # b) date))
          = map (entry_of True) ?A @ map (entry_of True) (filter (keeps True date) (enumerate (length a) b))"
    using entries_before [OF before] entries_after [OF after, of date]
          entries_deleted [of "length a" date x]
    by (simp del: filter.simps)
  also have "\<dots> = list_entries (a @ b) date"
    using h1 by (simp add: list_entries_keeps enumerate_append_eq)
  finally show ?thesis by simp
qed


lemma get_entries_ok:
  assumes "\<not> not_authenticated c" and "failure_at c 0 = None"
  shows "get_entries c req_query r
           = (res_json (JObj [(''entries'',
                                JArr (map entry_json (list_entries (Sheet1 r) (obj_get req_query ''date'')))),
                              (''authenticated'', JBool True)]),
              [Sheets (ValuesGet (Cols ''Sheet1'' 0 6))], r)"
proof -
  have "(case data_values (values_of (select_cols 0 6 (Sheet1 r))) of None \<Rightarrow> [] | Some vs \<Rightarrow> vs)
          = select_cols 0 6 (Sheet1 r)"
    by (simp add: data_values_def values_of_def)
  then show ?thesis
    using assms
    by (simp add: get_entries_def Let_def sheets_request_def remote_step_def grid_of_def
          list_entries_select)
qed

lemma delete_entry_ok:
  assumes "\<not> not_authenticated c" and "failure_at c 0 = None"
    and "parseInt (Some rowIndex) = Some (int k)"
  shows "delete_entry c rowIndex r
           = (res_json (JObj [(''success'', JBool True)]),
              [Sheets (DeleteDimension 0 (Some (int k + 1)) (Some (int k + 2)))],
              r\<lparr>Sheet1 := take (Suc k) (Sheet1 r) @ drop (Suc (Suc k)) (Sheet1 r)\<rparr>)"
proof -
  have "nat (1 + int k) = Suc k" and "nat (int k + 2) = Suc (Suc k)"
    by simp_all
  then show ?thesis
    using assms
    by (simp add: delete_entry_def Let_def sheetRowIndex_def sheets_request_def remote_step_def)
qed

text \<open>
  C7. On a ledger with a header row, with credentials and no failing call: deleting
  the entry with a valid index \<open>k\<close> answers 200, and listing the entries of a date
  afterwards gives the entries listed before without the one of index \<open>k\<close>, those
  with an index above \<open>k\<close> now with that index less 1, and those below \<open>k\<close> as they
  were.
\<close>

theorem delete_shifts_later_entries:
  assumes "\<not> not_authenticated c" and "failure_at c 0 = None"
    and "hasHeader (Sheet1 r)"
    and "parseInt (Some rowIndex) = Some (int k)"
    and "Suc k < length (Sheet1 r)"
  shows "fst (delete_entry c rowIndex r) = \<lparr>status = 200, body = JObj [(''success'', JBool True)]\<rparr>
       \<and> fst (get_entries c req_query r)
           = res_json (JObj [(''entries'',
                JArr (map entry_json (list_entries (Sheet1 r) (obj_get req_query ''date'')))),
               (''authenticated'', JBool True)])
       \<and> fst (get_entries c req_query (snd (snd (delete_entry c rowIndex r))))
           = res_json (JObj [(''entries'',
                JArr (map entry_json
                  (map (shift_entry (int k))
                     (filter (\<lambda>e. e_rowIndex e \<noteq> int k)
                        (list_entries (Sheet1 r) (obj_get req_query ''date'')))))),
               (''authenticated'', JBool True)])
       \<and> (\<forall>e. int k < e_rowIndex e \<longrightarrow> shift_entry (int k) e = e\<lparr>e_rowIndex := e_rowIndex e - 1\<rparr>)
       \<and> (\<forall>e. e_rowIndex e < int k \<longrightarrow> shift_entry (int k) e = e)"
proof -
  let ?g = "Sheet1 r"
  let ?a = "take (Suc k) ?g"
  let ?b = "drop (Suc (Suc k)) ?g"
  have split: "?g = ?a @ ?g ! Suc k # ?b"
    using assms(5) by (rule id_take_nth_drop)
  have len: "length ?a = Suc k"
    using assms(5) by simp
  then have ne: "?a \<noteq> []"
    by auto
  have "hasHeader (?a @ ?g ! Suc k # ?b)"
    using assms(3) split by simp
  then have hdr: "hasHeader ?a"
    using ne by (simp add: hasHeader_append)
  have "list_entries (?a @ ?b) (obj_get req_query ''date'')
          = map (shift_entry (int (length ?a) - 1))
              (filter (\<lambda>e. e_rowIndex e \<noteq> int (length ?a) - 1)
                 (list_entries (?a @ ?g ! Suc k # ?b) (obj_get req_query ''date'')))"
    using hdr ne by (rule list_after_delete)
  then have after: "list_entries (?a @ ?b) (obj_get req_query ''date'')
          = map (shift_entry (int k))
              (filter (\<lambda>e. e_rowIndex e \<noteq> int k) (list_entries ?g (obj_get req_query ''date'')))"
    using split len by simp
  have del: "delete_entry c rowIndex r
           = (res_json (JObj [(''success'', JBool True)]),
              [Sheets (DeleteDimension 0 (Some (int k + 1)) (Some (int k + 2)))],
              r\<lparr>Sheet1 := ?a @ ?b\<rparr>)"
    using assms(1,2,4) by (rule delete_entry_ok)
  show ?thesis
    unfolding del
    using after
    by (simp add: get_entries_ok [OF assms(1,2)] res_json_def res_status_json_def shift_entry_def)
qed

lemma example_entries:
  "list_entries (Sheet1 example_ledger) (JStr ''3/10/2024'')
     = [\<lparr>e_rowIndex = 1, e_date = JStr ''3/10/2024'', e_time = JStr ''09:00 AM'',
         e_food = JStr ''eggs'', e_calories = 150, e_protein = 12, e_carbs = 1, e_fat = 10\<rparr>,
        \<lparr>e_rowIndex = 2, e_date = JStr ''3/10/2024'', e_time = JStr ''01:00 PM'',
         e_food = JStr ''rice'', e_calories = 0, e_protein = 4, e_carbs = 0, e_fat = 0\<rparr>]"
  by code_simp

lemma example_ledger_header:
  "hasHeader (Sheet1 example_ledger)" "Suc 1 < length (Sheet1 example_ledger)"
  by code_simp+

theorem delete_shifts_later_entries_witness:
  "hasHeader (Sheet1 example_ledger)
   \<and> parseInt (Some ''1'') = Some (int 1)
   \<and> fst (get_entries example_server [(''date'', JStr ''3/10/2024'')]
            (snd (snd (delete_entry example_server ''1'' example_ledger))))
       = \<lparr>status = 200,
          body = JObj [(''entries'',
                   JArr [JObj [(''rowIndex'', JNum 1), (''date'', JStr ''3/10/2024''),
                               (''time'', JStr ''01:00 PM''), (''food'', JStr ''rice''),
                               (''calories'', JNum 0), (''protein'', JNum 4), (''carbs'', JNum 0),
                               (''fat'', JNum 0), (''logged'', JBool True)]]),
                  (''authenticated'', JBool True)]\<rparr>"
proof -
  have idx: "parseInt (Some ''1'') = Some (int 1)"
    using example_index_1 by simp
  note t = delete_shifts_later_entries
             [OF example_server_signed_in example_server_no_failure example_ledger_header(1) idx
                 example_ledger_header(2), of "[(''date'', JStr ''3/10/2024'')]"]
  have "fst (get_entries example_server [(''date'', JStr ''3/10/2024'')]
            (snd (snd (delete_entry example_server ''1'' example_ledger))))
       = \<lparr>status = 200,
          body = JObj [(''entries'',
                   JArr [JObj [(''rowIndex'', JNum 1), (''date'', JStr ''3/10/2024''),
                               (''time'', JStr ''01:00 PM''), (''food'', JStr ''rice''),
                               (''calories'', JNum 0), (''protein'', JNum 4), (''carbs'', JNum 0),
                               (''fat'', JNum 0), (''logged'', JBool True)]]),
                  (''authenticated'', JBool True)]\<rparr>"
    using t
    by (simp add: obj_get_def example_entries shift_entry_def entry_json_def res_json_def
          res_status_json_def)
  then show ?thesis
    using example_ledger_header(1) idx by simp
qed

section \<open>Cells that do not parse\<close>

lemma macro_case:
  "macro row i = (case parseInt (cell row i) of None \<Rightarrow> 0 | Some v \<Rightarrow> v)"
  by (simp add: macro_def num_or_def split: option.splits)

lemma matched_date_cells_map:
  "map (\<lambda>ir. (fst ir, cell (snd ir) 0)) (matched c p now rows)
     = filter (\<lambda>ic. \<not> (fst ic = 0 \<and> (case snd ic of None \<Rightarrow> False | Some s \<Rightarrow> toLowerCase s = ''date''))
                   \<and> (case (case snd ic of None \<Rightarrow> None | Some s \<Rightarrow> Date_parse c s) of
                        None \<Rightarrow> False
                      | Some t \<Rightarrow> in_window (window_start c p now) now t))
         (enumerate 0 (date_cells rows))"
proof -
  have "matches c (window_start c p now) now
          = (\<lambda>ir. \<not> (fst ir = 0 \<and> (case cell (snd ir) 0 of None \<Rightarrow> False | Some s \<Rightarrow> toLowerCase s = ''date''))
                   \<and> (case (case cell (snd ir) 0 of None \<Rightarrow> None | Some s \<Rightarrow> Date_parse c s) of
                        None \<Rightarrow> False
                      | Some t \<Rightarrow> in_window (window_start c p now) now t))"
    by (simp add: fun_eq_iff matches_def header_cell_def row_date_def)
  then show ?thesis
    unfolding matched_def date_cells_def enumerate_map filter_map
    by (simp add: comp_def)
qed

lemma matched_date_key:
  assumes "ir \<in> set (matched c p now rows)"
  shows "snd ir ! 0 = the (cell (snd ir) 0)"
proof -
  from assms have "matches c (window_start c p now) now ir"
    by (simp add: matched_def)
  then have "row_date c (snd ir) \<noteq> None"
    by (auto simp: matches_def split: option.splits)
  then show ?thesis
    by (auto simp: row_date_def cell_def split: if_splits)
qed

lemma date_keys_matched:
  "date_keys (matched c p now rows)
     = (\<lambda>ic. the (snd ic)) ` set (map (\<lambda>ir. (fst ir, cell (snd ir) 0)) (matched c p now rows))"
proof -
  have "(\<lambda>ir. snd ir ! 0) ` set (matched c p now rows)
          = (\<lambda>ir. the (cell (snd ir) 0)) ` set (matched c p now rows)"
    by (rule image_cong) (simp_all add: matched_date_key)
  then show ?thesis
    by (simp add: date_keys_def image_image)
qed

lemma matched_date_cells:
  assumes "date_cells rows' = date_cells rows"
  shows "length (matched c p now rows') = length (matched c p now rows)"
    and "date_keys (matched c p now rows') = date_keys (matched c p now rows)"
    and "(matched c p now rows' = []) = (matched c p now rows = [])"
proof -
  have eq: "map (\<lambda>ir. (fst ir, cell (snd ir) 0)) (matched c p now rows')
          = map (\<lambda>ir. (fst ir, cell (snd ir) 0)) (matched c p now rows)"
    by (simp only: matched_date_cells_map assms)
  from eq show len: "length (matched c p now rows') = length (matched c p now rows)"
    by (rule map_eq_imp_length_eq)
  from eq show "date_keys (matched c p now rows') = date_keys (matched c p now rows)"
    by (simp only: date_keys_matched)
  from len show "(matched c p now rows' = []) = (matched c p now rows = [])"
    by (metis length_0_conv)
qed

lemma json_elems_map: "json_elems xs = map json_elem xs"
  by (induction xs) simp_all

lemma entries_response:
  assumes "\<not> not_authenticated c" and "failure_at c 0 = None"
    and "rows = select_cols 0 6 (Sheet1 r)"
  shows "status (fst (get_entries c req_query r)) = 200"
    and "opt_prop (body (fst (get_entries c req_query r))) ''entries''
           = JArr (map (\<lambda>ir. json_elem (entry_json (entry_of (hasHeader rows) ir)))
                (filter (\<lambda>ir. \<not> (fst ir = 0 \<and> hasHeader rows)
                                \<and> cell_val (snd ir) 0 = obj_get req_query ''date'')
                   (enumerate 0 rows)))"
proof -
  have out: "fst (get_entries c req_query r)
      = res_json (JObj [(''entries'',
                          JArr (map entry_json (list_entries rows (obj_get req_query ''date'')))),
                        (''authenticated'', JBool True)])"
    using get_entries_ok [OF assms(1,2)] by (simp add: assms(3) list_entries_select)
  show "status (fst (get_entries c req_query r)) = 200"
    by (simp add: out res_json_def res_status_json_def)
  show "opt_prop (body (fst (get_entries c req_query r))) ''entries''
           = JArr (map (\<lambda>ir. json_elem (entry_json (entry_of (hasHeader rows) ir)))
                (filter (\<lambda>ir. \<not> (fst ir = 0 \<and> hasHeader rows)
                                \<and> cell_val (snd ir) 0 = obj_get req_query ''date'')
                   (enumerate 0 rows)))"
    by (simp add: out res_json_def res_status_json_def opt_prop_def obj_get_def json_elems_map
          list_entries_def comp_def)
qed

lemma entry_json_cells:
  "entry_json (entry_of h ir)
     = JObj [(''rowIndex'', JNum (of_int (if h then int (fst ir) - 1 else int (fst ir)))),
             (''date'', cell_val (snd ir) 0),
             (''time'', cell_val (snd ir) 1),
             (''food'', cell_val (snd ir) 2),
             (''calories'', JNum (of_int (case parseInt (cell (snd ir) 3) of None \<Rightarrow> 0 | Some v \<Rightarrow> v))),
             (''protein'', JNum (of_int (case parseInt (cell (snd ir) 4) of None \<Rightarrow> 0 | Some v \<Rightarrow> v))),
             (''carbs'', JNum (of_int (case parseInt (cell (snd ir) 5) of None \<Rightarrow> 0 | Some v \<Rightarrow> v))),
             (''fat'', JNum (of_int (case parseInt (cell (snd ir) 6) of None \<Rightarrow> 0 | Some v \<Rightarrow> v))),
             (''logged'', JBool True)]"
  by (simp add: entry_json_def entry_of_def macro_case)

text \<open>
  C10. With credentials, no failing read and a zone the host knows, both routes answer
  200 whatever the macro cells hold. \<open>GET /summary\<close> counts every matched row in
  \<open>entryCount\<close> and its date text in \<open>daysCount\<close>, both are the same for every
  ledger with the same date cells row by row, and each total adds, for every matched row, the
  integer \<open>parseInt\<close> reads in the cell, and 0 for a cell that is not there or that
  \<open>parseInt\<close> does not read. \<open>GET /entries\<close> lists every row whose date cell equals the
  date asked for, with the same value for each macro. The host's date parser is taken not
  to accept the name of a property of \<open>Object.prototype\<close>, and the cells to be in the
  range where the doubles of the code are exact.
\<close>

theorem macro_cells_coerced:
  assumes "\<not> not_authenticated c" and "failure_at c 0 = None"
    and "nowInTz c (js_or (obj_get req_query ''timezone'') (JStr ''UTC'')) = Inr now"
    and "\<forall>k\<in>set Object_prototype_keys. Date_parse c k = None"
    and "rows = select_cols 0 6 (Sheet1 r)"
    and "M = matched c (obj_get req_query ''period'') now rows"
    and "exact_sums M" and "exact_cells rows"
  shows "status (fst (get_summary c req_query r)) = 200
       \<and> opt_prop (body (fst (get_summary c req_query r))) ''entryCount'' = JNum (of_nat (length M))
       \<and> opt_prop (body (fst (get_summary c req_query r))) ''daysCount''
           = JNum (of_nat (if M = [] then 1 else card (date_keys M)))
       \<and> opt_prop (body (fst (get_summary c req_query r))) ''totalCalories''
           = JNum (of_int (\<Sum>ir\<leftarrow>M. case parseInt (cell (snd ir) 3) of None \<Rightarrow> 0 | Some v \<Rightarrow> v))
       \<and> opt_prop (body (fst (get_summary c req_query r))) ''totalProtein''
           = JNum (of_int (\<Sum>ir\<leftarrow>M. case parseInt (cell (snd ir) 4) of None \<Rightarrow> 0 | Some v \<Rightarrow> v))
       \<and> opt_prop (body (fst (get_summary c req_query r))) ''totalCarbs''
           = JNum (of_int (\<Sum>ir\<leftarrow>M. case parseInt (cell (snd ir) 5) of None \<Rightarrow> 0 | Some v \<Rightarrow> v))
       \<and> opt_prop (body (fst (get_summary c req_query r))) ''totalFat''
           = JNum (of_int (\<Sum>ir\<leftarrow>M. case parseInt (cell (snd ir) 6) of None \<Rightarrow> 0 | Some v \<Rightarrow> v))
       \<and> (\<forall>r' :: remote. date_cells (select_cols 0 6 (Sheet1 r')) = date_cells rows
                \<and> exact_sums (matched c (obj_get req_query ''period'') now (select_cols 0 6 (Sheet1 r')))
              \<longrightarrow> opt_prop (body (fst (get_summary c req_query r'))) ''entryCount''
                    = opt_prop (body (fst (get_summary c req_query r))) ''entryCount''
                \<and> opt_prop (body (fst (get_summary c req_query r'))) ''daysCount''
                    = opt_prop (body (fst (get_summary c req_query r))) ''daysCount'')
       \<and> status (fst (get_entries c req_query r)) = 200
       \<and> opt_prop (body (fst (get_entries c req_query r))) ''entries''
           = JArr (map (\<lambda>ir. json_elem (JObj
                [(''rowIndex'', JNum (of_int (if hasHeader rows then int (fst ir) - 1 else int (fst ir)))),
                 (''date'', cell_val (snd ir) 0),
                 (''time'', cell_val (snd ir) 1),
                 (''food'', cell_val (snd ir) 2),
                 (''calories'', JNum (of_int (case parseInt (cell (snd ir) 3) of None \<Rightarrow> 0 | Some v \<Rightarrow> v))),
                 (''protein'', JNum (of_int (case parseInt (cell (snd ir) 4) of None \<Rightarrow> 0 | Some v \<Rightarrow> v))),
                 (''carbs'', JNum (of_int (case parseInt (cell (snd ir) 5) of None \<Rightarrow> 0 | Some v \<Rightarrow> v))),
                 (''fat'', JNum (of_int (case parseInt (cell (snd ir) 6) of None \<Rightarrow> 0 | Some v \<Rightarrow> v))),
                 (''logged'', JBool True)]))
               (filter (\<lambda>ir. \<not> (fst ir = 0 \<and> hasHeader rows)
                               \<and> cell_val (snd ir) 0 = obj_get req_query ''date'')
                  (enumerate 0 rows)))"
proof -
  have M: "M = matched c (obj_get req_query ''period'') now (select_cols 0 6 (Sheet1 r))"
    using assms(5,6) by simp
  obtain t where out: "get_summary c req_query r
               = (\<lparr>status = 200, body = json_elem (summary_json (obj_get req_query ''period'') t)\<rparr>,
                  [Sheets (ValuesGet (Cols ''Sheet1'' 0 6))], r)"
    and count: "entryCount t = length M"
    and days: "daysCount t = (if M = [] then 1 else card (date_keys M))"
    and sums: "totalCalories t = (\<Sum>ir\<leftarrow>M. macro (snd ir) 3)"
      "totalProtein t = (\<Sum>ir\<leftarrow>M. macro (snd ir) 4)"
      "totalCarbs t = (\<Sum>ir\<leftarrow>M. macro (snd ir) 5)"
      "totalFat t = (\<Sum>ir\<leftarrow>M. macro (snd ir) 6)"
    using summary_response [OF assms(1,2,3,4) M] by auto
  have summary: "status (fst (get_summary c req_query r)) = 200
       \<and> opt_prop (body (fst (get_summary c req_query r))) ''entryCount'' = JNum (of_nat (length M))
       \<and> opt_prop (body (fst (get_summary c req_query r))) ''daysCount''
           = JNum (of_nat (if M = [] then 1 else card (date_keys M)))
       \<and> opt_prop (body (fst (get_summary c req_query r))) ''totalCalories''
           = JNum (of_int (\<Sum>ir\<leftarrow>M. case parseInt (cell (snd ir) 3) of None \<Rightarrow> 0 | Some v \<Rightarrow> v))
       \<and> opt_prop (body (fst (get_summary c req_query r))) ''totalProtein''
           = JNum (of_int (\<Sum>ir\<leftarrow>M. case parseInt (cell (snd ir) 4) of None \<Rightarrow> 0 | Some v \<Rightarrow> v))
       \<and> opt_prop (body (fst (get_summary c req_query r))) ''totalCarbs''
           = JNum (of_int (\<Sum>ir\<leftarrow>M. case parseInt (cell (snd ir) 5) of None \<Rightarrow> 0 | Some v \<Rightarrow> v))
       \<and> opt_prop (body (fst (get_summary c req_query r))) ''totalFat''
           = JNum (of_int (\<Sum>ir\<leftarrow>M. case parseInt (cell (snd ir) 6) of None \<Rightarrow> 0 | Some v \<Rightarrow> v))"
    unfolding out
    by (simp add: summary_json_fields count days sums macro_case)
  have decided: "\<forall>r' :: remote. date_cells (select_cols 0 6 (Sheet1 r')) = date_cells rows
                \<and> exact_sums (matched c (obj_get req_query ''period'') now (select_cols 0 6 (Sheet1 r')))
              \<longrightarrow> opt_prop (body (fst (get_summary c req_query r'))) ''entryCount''
                    = opt_prop (body (fst (get_summary c req_query r))) ''entryCount''
                \<and> opt_prop (body (fst (get_summary c req_query r'))) ''daysCount''
                    = opt_prop (body (fst (get_summary c req_query r))) ''daysCount''"
  proof (intro allI impI)
    fix r' :: remote
    assume same: "date_cells (select_cols 0 6 (Sheet1 r')) = date_cells rows
                \<and> exact_sums (matched c (obj_get req_query ''period'') now (select_cols 0 6 (Sheet1 r')))"
    define M' where "M' = matched c (obj_get req_query ''period'') now (select_cols 0 6 (Sheet1 r'))"
    obtain t' where out': "get_summary c req_query r'
               = (\<lparr>status = 200, body = json_elem (summary_json (obj_get req_query ''period'') t')\<rparr>,
                  [Sheets (ValuesGet (Cols ''Sheet1'' 0 6))], r')"
      and count': "entryCount t' = length M'"
      and days': "daysCount t' = (if M' = [] then 1 else card (date_keys M'))"
      using summary_response [OF assms(1,2,3,4) M'_def] by auto
    from same have cells: "date_cells (select_cols 0 6 (Sheet1 r')) = date_cells rows"
      by simp
    have "length M' = length M" and "date_keys M' = date_keys M" and "(M' = []) = (M = [])"
      unfolding M'_def assms(6) by (rule matched_date_cells [OF cells])+
    then have "entryCount t' = entryCount t" and "daysCount t' = daysCount t"
      by (simp_all add: count count' days days')
    then show "opt_prop (body (fst (get_summary c req_query r'))) ''entryCount''
                    = opt_prop (body (fst (get_summary c req_query r))) ''entryCount''
                \<and> opt_prop (body (fst (get_summary c req_query r'))) ''daysCount''
                    = opt_prop (body (fst (get_summary c req_query r))) ''daysCount''"
      unfolding out out' by (simp add: summary_json_fields)
  qed
  have entries: "status (fst (get_entries c req_query r)) = 200
       \<and> opt_prop (body (fst (get_entries c req_query r))) ''entries''
           = JArr (map (\<lambda>ir. json_elem (JObj
                [(''rowIndex'', JNum (of_int (if hasHeader rows then int (fst ir) - 1 else int (fst ir)))),
                 (''date'', cell_val (snd ir) 0),
                 (''time'', cell_val (snd ir) 1),
                 (''food'', cell_val (snd ir) 2),
                 (''calories'', JNum (of_int (case parseInt (cell (snd ir) 3) of None \<Rightarrow> 0 | Some v \<Rightarrow> v))),
                 (''protein'', JNum (of_int (case parseInt (cell (snd ir) 4) of None \<Rightarrow> 0 | Some v \<Rightarrow> v))),
                 (''carbs'', JNum (of_int (case parseInt (cell (snd ir) 5) of None \<Rightarrow> 0 | Some v \<Rightarrow> v))),
                 (''fat'', JNum (of_int (case parseInt (cell (snd ir) 6) of None \<Rightarrow> 0 | Some v \<Rightarrow> v))),
                 (''logged'', JBool True)]))
               (filter (\<lambda>ir. \<not> (fst ir = 0 \<and> hasHeader rows)
                               \<and> cell_val (snd ir) 0 = obj_get req_query ''date'')
                  (enumerate 0 rows)))"
    using entries_response [OF assms(1,2,5), of req_query]
    by (simp only: entry_json_cells)
  from summary decided entries show ?thesis
    by (intro conjI) blast+
qed

lemma example_rows:
  "[[''Date'', ''Time'', ''Food'', ''Calories'', ''Protein'', ''Carbs'', ''Fat''],
    [''3/9/2024'', ''08:00 AM'', ''oats'', ''300'', ''10'', ''50'', ''5''],
    [''3/10/2024'', ''09:00 AM'', ''eggs'', ''150'', ''12'', ''1'', ''10''],
    [''3/10/2024'', ''01:00 PM'', ''rice'', ''abc'', ''4''],
    [''3/11/2024'', ''01:00 PM'', ''soup'', ''90'', ''4'', ''9'', ''2'']]
     = select_cols 0 6 (Sheet1 example_ledger)"
  by code_simp

lemma example_day:
  "[(2, [''3/10/2024'', ''09:00 AM'', ''eggs'', ''150'', ''12'', ''1'', ''10'']),
    (3, [''3/10/2024'', ''01:00 PM'', ''rice'', ''abc'', ''4''])]
     = matched example_server
         (obj_get [(''period'', JStr ''daily''), (''date'', JStr ''3/10/2024'')] ''period'')
         (Some example_now)
         [[''Date'', ''Time'', ''Food'', ''Calories'', ''Protein'', ''Carbs'', ''Fat''],
          [''3/9/2024'', ''08:00 AM'', ''oats'', ''300'', ''10'', ''50'', ''5''],
          [''3/10/2024'', ''09:00 AM'', ''eggs'', ''150'', ''12'', ''1'', ''10''],
          [''3/10/2024'', ''01:00 PM'', ''rice'', ''abc'', ''4''],
          [''3/11/2024'', ''01:00 PM'', ''soup'', ''90'', ''4'', ''9'', ''2'']]"
  by code_simp

lemma example_day_exact:
  "exact_sums [(2, [''3/10/2024'', ''09:00 AM'', ''eggs'', ''150'', ''12'', ''1'', ''10'']),
               (3, [''3/10/2024'', ''01:00 PM'', ''rice'', ''abc'', ''4''])]"
  "exact_cells [[''Date'', ''Time'', ''Food'', ''Calories'', ''Protein'', ''Carbs'', ''Fat''],
          [''3/9/2024'', ''08:00 AM'', ''oats'', ''300'', ''10'', ''50'', ''5''],
          [''3/10/2024'', ''09:00 AM'', ''eggs'', ''150'', ''12'', ''1'', ''10''],
          [''3/10/2024'', ''01:00 PM'', ''rice'', ''abc'', ''4''],
          [''3/11/2024'', ''01:00 PM'', ''soup'', ''90'', ''4'', ''9'', ''2'']]"
  by code_simp+

lemma example_day_sums:
  "(\<Sum>ir\<leftarrow>[(2::nat, [''3/10/2024'', ''09:00 AM'', ''eggs'', ''150'', ''12'', ''1'', ''10'']),
             (3, [''3/10/2024'', ''01:00 PM'', ''rice'', ''abc'', ''4''])].
       case parseInt (cell (snd ir) 3) of None \<Rightarrow> 0 | Some v \<Rightarrow> v) = 150"
  "(\<Sum>ir\<leftarrow>[(2::nat, [''3/10/2024'', ''09:00 AM'', ''eggs'', ''150'', ''12'', ''1'', ''10'']),
             (3, [''3/10/2024'', ''01:00 PM'', ''rice'', ''abc'', ''4''])].
       case parseInt (cell (snd ir) 4) of None \<Rightarrow> 0 | Some v \<Rightarrow> v) = 16"
  "(\<Sum>ir\<leftarrow>[(2::nat, [''3/10/2024'', ''09:00 AM'', ''eggs'', ''150'', ''12'', ''1'', ''10'']),
             (3, [''3/10/2024'', ''01:00 PM'', ''rice'', ''abc'', ''4''])].
       case parseInt (cell (snd ir) 5) of None \<Rightarrow> 0 | Some v \<Rightarrow> v) = 1"
  "(\<Sum>ir\<leftarrow>[(2::nat, [''3/10/2024'', ''09:00 AM'', ''eggs'', ''150'', ''12'', ''1'', ''10'']),
             (3, [''3/10/2024'', ''01:00 PM'', ''rice'', ''abc'', ''4''])].
       case parseInt (cell (snd ir) 6) of None \<Rightarrow> 0 | Some v \<Rightarrow> v) = 10"
  by code_simp+

lemma example_day_entries:
  "map (\<lambda>ir. json_elem (JObj
       [(''rowIndex'', JNum (of_int (if hasHeader
            [[''Date'', ''Time'', ''Food'', ''Calories'', ''Protein'', ''Carbs'', ''Fat''],
             [''3/9/2024'', ''08:00 AM'', ''oats'', ''300'', ''10'', ''50'', ''5''],
             [''3/10/2024'', ''09:00 AM'', ''eggs'', ''150'', ''12'', ''1'', ''10''],
             [''3/10/2024'', ''01:00 PM'', ''rice'', ''abc'', ''4''],
             [''3/11/2024'', ''01:00 PM'', ''soup'', ''90'', ''4'', ''9'', ''2'']]
          then int (fst ir) - 1 else int (fst ir)))),
        (''date'', cell_val (snd ir) 0),
        (''time'', cell_val (snd ir) 1),
        (''food'', cell_val (snd ir) 2),
        (''calories'', JNum (of_int (case parseInt (cell (snd ir) 3) of None \<Rightarrow> 0 | Some v \<Rightarrow> v))),
        (''protein'', JNum (of_int (case parseInt (cell (snd ir) 4) of None \<Rightarrow> 0 | Some v \<Rightarrow> v))),
        (''carbs'', JNum (of_int (case parseInt (cell (snd ir) 5) of None \<Rightarrow> 0 | Some v \<Rightarrow> v))),
        (''fat'', JNum (of_int (case parseInt (cell (snd ir) 6) of None \<Rightarrow> 0 | Some v \<Rightarrow> v))),
        (''logged'', JBool True)]))
     (filter (\<lambda>ir. \<not> (fst ir = 0 \<and> hasHeader
            [[''Date'', ''Time'', ''Food'', ''Calories'', ''Protein'', ''Carbs'', ''Fat''],
             [''3/9/2024'', ''08:00 AM'', ''oats'', ''300'', ''10'', ''50'', ''5''],
             [''3/10/2024'', ''09:00 AM'', ''eggs'', ''150'', ''12'', ''1'', ''10''],
             [''3/10/2024'', ''01:00 PM'', ''rice'', ''abc'', ''4''],
             [''3/11/2024'', ''01:00 PM'', ''soup'', ''90'', ''4'', ''9'', ''2'']])
                     \<and> cell_val (snd ir) 0
                         = obj_get [(''period'', JStr ''daily''), (''date'', JStr ''3/10/2024'')] ''date'')
        (enumerate 0
            [[''Date'', ''Time'', ''Food'', ''Calories'', ''Protein'', ''Carbs'', ''Fat''],
             [''3/9/2024'', ''08:00 AM'', ''oats'', ''300'', ''10'', ''50'', ''5''],
             [''3/10/2024'', ''09:00 AM'', ''eggs'', ''150'', ''12'', ''1'', ''10''],
             [''3/10/2024'', ''01:00 PM'', ''rice'', ''abc'', ''4''],
             [''3/11/2024'', ''01:00 PM'', ''soup'', ''90'', ''4'', ''9'', ''2'']]))
   = [JObj [(''rowIndex'', JNum 1), (''date'', JStr ''3/10/2024''), (''time'', JStr ''09:00 AM''),
            (''food'', JStr ''eggs''), (''calories'', JNum 150), (''protein'', JNum 12),
            (''carbs'', JNum 1), (''fat'', JNum 10), (''logged'', JBool True)],
      JObj [(''rowIndex'', JNum 2), (''date'', JStr ''3/10/2024''), (''time'', JStr ''01:00 PM''),
            (''food'', JStr ''rice''), (''calories'', JNum 0), (''protein'', JNum 4),
            (''carbs'', JNum 0), (''fat'', JNum 0), (''logged'', JBool True)]]"
  by code_simp

lemma example_ledger_rice:
  "date_cells (select_cols 0 6 (Sheet1 (example_ledger\<lparr>Sheet1 := (Sheet1 example_ledger)
       [3 := [''3/10/2024'', ''01:00 PM'', ''rice'', ''200'', ''4'', ''45'', ''1'']]\<rparr>)))
     = date_cells [[''Date'', ''Time'', ''Food'', ''Calories'', ''Protein'', ''Carbs'', ''Fat''],
             [''3/9/2024'', ''08:00 AM'', ''oats'', ''300'', ''10'', ''50'', ''5''],
             [''3/10/2024'', ''09:00 AM'', ''eggs'', ''150'', ''12'', ''1'', ''10''],
             [''3/10/2024'', ''01:00 PM'', ''rice'', ''abc'', ''4''],
             [''3/11/2024'', ''01:00 PM'', ''soup'', ''90'', ''4'', ''9'', ''2'']]"
  "exact_sums (matched example_server
       (obj_get [(''period'', JStr ''daily''), (''date'', JStr ''3/10/2024'')] ''period'')
       (Some example_now)
       (select_cols 0 6 (Sheet1 (example_ledger\<lparr>Sheet1 := (Sheet1 example_ledger)
          [3 := [''3/10/2024'', ''01:00 PM'', ''rice'', ''200'', ''4'', ''45'', ''1'']]\<rparr>))))"
  by code_simp+

theorem macro_cells_coerced_witness:
  "\<not> not_authenticated example_server
   \<and> list_all (\<lambda>k. Date_parse example_server k = None) Object_prototype_keys
   \<and> status (fst (get_summary example_server
        [(''period'', JStr ''daily''), (''date'', JStr ''3/10/2024'')] example_ledger)) = 200
   \<and> opt_prop (body (fst (get_summary example_server
        [(''period'', JStr ''daily''), (''date'', JStr ''3/10/2024'')] example_ledger))) ''entryCount''
       = JNum 2
   \<and> opt_prop (body (fst (get_summary example_server
        [(''period'', JStr ''daily''), (''date'', JStr ''3/10/2024'')] example_ledger))) ''daysCount''
       = JNum 1
   \<and> opt_prop (body (fst (get_summary example_server
        [(''period'', JStr ''daily''), (''date'', JStr ''3/10/2024'')] example_ledger))) ''totalCalories''
       = JNum 150
   \<and> opt_prop (body (fst (get_summary example_server
        [(''period'', JStr ''daily''), (''date'', JStr ''3/10/2024'')] example_ledger))) ''totalProtein''
       = JNum 16
   \<and> opt_prop (body (fst (get_summary example_server
        [(''period'', JStr ''daily''), (''date'', JStr ''3/10/2024'')] example_ledger))) ''totalCarbs''
       = JNum 1
   \<and> opt_prop (body (fst (get_summary example_server
        [(''period'', JStr ''daily''), (''date'', JStr ''3/10/2024'')] example_ledger))) ''totalFat''
       = JNum 10
   \<and> opt_prop (body (fst (get_summary example_server
        [(''period'', JStr ''daily''), (''date'', JStr ''3/10/2024'')]
        (example_ledger\<lparr>Sheet1 := (Sheet1 example_ledger)
           [3 := [''3/10/2024'', ''01:00 PM'', ''rice'', ''200'', ''4'', ''45'', ''1'']]\<rparr>)))) ''entryCount''
       = JNum 2
   \<and> status (fst (get_entries example_server
        [(''period'', JStr ''daily''), (''date'', JStr ''3/10/2024'')] example_ledger)) = 200
   \<and> opt_prop (body (fst (get_entries example_server
        [(''period'', JStr ''daily''), (''date'', JStr ''3/10/2024'')] example_ledger))) ''entries''
       = JArr [JObj [(''rowIndex'', JNum 1), (''date'', JStr ''3/10/2024''), (''time'', JStr ''09:00 AM''),
                     (''food'', JStr ''eggs''), (''calories'', JNum 150), (''protein'', JNum 12),
                     (''carbs'', JNum 1), (''fat'', JNum 10), (''logged'', JBool True)],
               JObj [(''rowIndex'', JNum 2), (''date'', JStr ''3/10/2024''), (''time'', JStr ''01:00 PM''),
                     (''food'', JStr ''rice''), (''calories'', JNum 0), (''protein'', JNum 4),
                     (''carbs'', JNum 0), (''fat'', JNum 0), (''logged'', JBool True)]]"
proof -
  let ?q = "[(''period'', JStr ''daily''), (''date'', JStr ''3/10/2024'')]"
  let ?rows = "[[''Date'', ''Time'', ''Food'', ''Calories'', ''Protein'', ''Carbs'', ''Fat''],
             [''3/9/2024'', ''08:00 AM'', ''oats'', ''300'', ''10'', ''50'', ''5''],
             [''3/10/2024'', ''09:00 AM'', ''eggs'', ''150'', ''12'', ''1'', ''10''],
             [''3/10/2024'', ''01:00 PM'', ''rice'', ''abc'', ''4''],
             [''3/11/2024'', ''01:00 PM'', ''soup'', ''90'', ''4'', ''9'', ''2'']]"
  let ?M = "[(2::nat, [''3/10/2024'', ''09:00 AM'', ''eggs'', ''150'', ''12'', ''1'', ''10'']),
             (3, [''3/10/2024'', ''01:00 PM'', ''rice'', ''abc'', ''4''])]"
  let ?r' = "example_ledger\<lparr>Sheet1 := (Sheet1 example_ledger)
           [3 := [''3/10/2024'', ''01:00 PM'', ''rice'', ''200'', ''4'', ''45'', ''1'']]\<rparr>"
  let ?sbody = "body (fst (get_summary example_server ?q example_ledger))"
  let ?ebody = "body (fst (get_entries example_server ?q example_ledger))"
  note t = macro_cells_coerced [OF example_server_signed_in example_server_no_failure example_clock
             example_parser_rejects_prototype_keys example_rows example_day example_day_exact]
  from t have st: "status (fst (get_summary example_server ?q example_ledger)) = 200"
    by blast
  from t have "opt_prop ?sbody ''entryCount'' = JNum (of_nat (length ?M))"
    by blast
  then have count: "opt_prop ?sbody ''entryCount'' = JNum 2"
    by simp
  from t have "opt_prop ?sbody ''daysCount'' = JNum (of_nat (if ?M = [] then 1 else card (date_keys ?M)))"
    by blast
  then have days: "opt_prop ?sbody ''daysCount'' = JNum 1"
    by (simp add: date_keys_def)
  from t have "opt_prop ?sbody ''totalCalories''
      = JNum (of_int (\<Sum>ir\<leftarrow>?M. case parseInt (cell (snd ir) 3) of None \<Rightarrow> 0 | Some v \<Rightarrow> v))"
    by blast
  then have cal: "opt_prop ?sbody ''totalCalories'' = JNum 150"
    unfolding example_day_sums by simp
  from t have "opt_prop ?sbody ''totalProtein''
      = JNum (of_int (\<Sum>ir\<leftarrow>?M. case parseInt (cell (snd ir) 4) of None \<Rightarrow> 0 | Some v \<Rightarrow> v))"
    by blast
  then have pro: "opt_prop ?sbody ''totalProtein'' = JNum 16"
    unfolding example_day_sums by simp
  from t have "opt_prop ?sbody ''totalCarbs''
      = JNum (of_int (\<Sum>ir\<leftarrow>?M. case parseInt (cell (snd ir) 5) of None \<Rightarrow> 0 | Some v \<Rightarrow> v))"
    by blast
  then have carb: "opt_prop ?sbody ''totalCarbs'' = JNum 1"
    unfolding example_day_sums by simp
  from t have "opt_prop ?sbody ''totalFat''
      = JNum (of_int (\<Sum>ir\<leftarrow>?M. case parseInt (cell (snd ir) 6) of None \<Rightarrow> 0 | Some v \<Rightarrow> v))"
    by blast
  then have fat: "opt_prop ?sbody ''totalFat'' = JNum 10"
    unfolding example_day_sums by simp
  from t example_ledger_rice
  have "opt_prop (body (fst (get_summary example_server ?q ?r'))) ''entryCount''
      = opt_prop ?sbody ''entryCount''"
    by blast
  with count have other: "opt_prop (body (fst (get_summary example_server ?q ?r'))) ''entryCount'' = JNum 2"
    by simp
  from t have est: "status (fst (get_entries example_server ?q example_ledger)) = 200"
    by blast
  from t have "opt_prop ?ebody ''entries''
       = JArr (map (\<lambda>ir. json_elem (JObj
                [(''rowIndex'', JNum (of_int (if hasHeader ?rows then int (fst ir) - 1 else int (fst ir)))),
                 (''date'', cell_val (snd ir) 0),
                 (''time'', cell_val (snd ir) 1),
                 (''food'', cell_val (snd ir) 2),
                 (''calories'', JNum (of_int (case parseInt (cell (snd ir) 3) of None \<Rightarrow> 0 | Some v \<Rightarrow> v))),
                 (''protein'', JNum (of_int (case parseInt (cell (snd ir) 4) of None \<Rightarrow> 0 | Some v \<Rightarrow> v))),
                 (''carbs'', JNum (of_int (case parseInt (cell (snd ir) 5) of None \<Rightarrow> 0 | Some v \<Rightarrow> v))),
                 (''fat'', JNum (of_int (case parseInt (cell (snd ir) 6) of None \<Rightarrow> 0 | Some v \<Rightarrow> v))),
                 (''logged'', JBool True)]))
               (filter (\<lambda>ir. \<not> (fst ir = 0 \<and> hasHeader ?rows)
                               \<and> cell_val (snd ir) 0 = obj_get ?q ''date'')
                  (enumerate 0 ?rows)))"
    by blast
  then have ent: "opt_prop ?ebody ''entries''
       = JArr [JObj [(''rowIndex'', JNum 1), (''date'', JStr ''3/10/2024''), (''time'', JStr ''09:00 AM''),
                     (''food'', JStr ''eggs''), (''calories'', JNum 150), (''protein'', JNum 12),
                     (''carbs'', JNum 1), (''fat'', JNum 10), (''logged'', JBool True)],
               JObj [(''rowIndex'', JNum 2), (''date'', JStr ''3/10/2024''), (''time'', JStr ''01:00 PM''),
                     (''food'', JStr ''rice''), (''calories'', JNum 0), (''protein'', JNum 4),
                     (''carbs'', JNum 0), (''fat'', JNum 0), (''logged'', JBool True)]]"
    by (simp only: example_day_entries)
  from st count days cal pro carb fat other est ent show ?thesis
    using example_parser_rejects_prototype_keys example_server_signed_in
    by (simp add: list_all_iff)
qed

end
